theory Spec2Isabelle
  imports Main "HOL-Library.Word"
begin

unbundle bit_operations_syntax

section \<open>Python string primitives\<close>

text \<open>
  A Python \<open>str\<close> is modelled as a \<open>string\<close> whose characters are the code points
  below 256. The primitives below are the built-in methods the program calls, restricted
  to that range.
\<close>

definition isspace :: "char \<Rightarrow> bool" where
  \<comment> \<open>\<open>str.isspace\<close> on one character: TAB..CR, FS..US, SPACE, NEL, NBSP.\<close>
  "isspace c =
     (let n = (of_char c :: nat)
      in (9 \<le> n \<and> n \<le> 13) \<or> (28 \<le> n \<and> n \<le> 32) \<or> n = 133 \<or> n = 160)"

definition strip :: "string \<Rightarrow> string" where
  \<comment> \<open>\<open>s.strip()\<close>: leading and trailing whitespace removed.\<close>
  "strip s = rev (dropWhile isspace (rev (dropWhile isspace s)))"

definition lower_char :: "char \<Rightarrow> char" where
  "lower_char c =
     (let n = (of_char c :: nat)
      in if (65 \<le> n \<and> n \<le> 90) \<or> (192 \<le> n \<and> n \<le> 222 \<and> n \<noteq> 215)
         then char_of (n + 32) else c)"

definition lower :: "string \<Rightarrow> string" where
  \<comment> \<open>\<open>s.lower()\<close>\<close>
  "lower s = map lower_char s"

fun split_sep :: "char \<Rightarrow> string \<Rightarrow> string list" where
  \<comment> \<open>\<open>s.split(sep)\<close> for a separator of one character: never an empty list.\<close>
  "split_sep sep [] = [[]]"
| "split_sep sep (c # cs) =
     (if c = sep then [] # split_sep sep cs
      else (case split_sep sep cs of
              [] \<Rightarrow> [[c]]
            | p # ps \<Rightarrow> (c # p) # ps))"

fun join :: "string \<Rightarrow> string list \<Rightarrow> string" where
  \<comment> \<open>\<open>sep.join(xs)\<close>\<close>
  "join sep [] = []"
| "join sep [x] = x"
| "join sep (x # y # ys) = x @ sep @ join sep (y # ys)"

definition is_linebreak :: "char \<Rightarrow> bool" where
  \<comment> \<open>the line boundaries of \<open>str.splitlines\<close>: LF, VT, FF, CR, FS, GS, RS, NEL.\<close>
  "is_linebreak c =
     (let n = (of_char c :: nat)
      in (10 \<le> n \<and> n \<le> 13) \<or> (28 \<le> n \<and> n \<le> 30) \<or> n = 133)"

fun splitlines_from :: "string \<Rightarrow> string \<Rightarrow> string list" where
  \<comment> \<open>the first argument is the line read so far; CR LF is one boundary.\<close>
  "splitlines_from cur [] = (if cur = [] then [] else [cur])"
| "splitlines_from cur [c] = (if is_linebreak c then [cur] else [cur @ [c]])"
| "splitlines_from cur (c # d # cs) =
     (if c = CHR 0x0D \<and> d = CHR 0x0A then cur # splitlines_from [] cs
      else if is_linebreak c then cur # splitlines_from [] (d # cs)
      else splitlines_from (cur @ [c]) (d # cs))"

definition splitlines :: "string \<Rightarrow> string list" where
  \<comment> \<open>\<open>s.splitlines()\<close>\<close>
  "splitlines s = splitlines_from [] s"

definition dict_get :: "(string \<rightharpoonup> string) \<Rightarrow> string \<Rightarrow> string \<Rightarrow> string" where
  \<comment> \<open>\<open>d.get(key, default)\<close>\<close>
  "dict_get d k dflt = (case d k of None \<Rightarrow> dflt | Some v \<Rightarrow> v)"

section \<open>Data model and the outside world\<close>

type_synonym exn = string
  \<comment> \<open>an exception, represented by its message \<open>str(e)\<close>\<close>

type_synonym path = string

type_synonym metadata = "string \<rightharpoonup> string"

record document =
  page_content :: string
  metadata :: metadata

datatype message = SystemMessage string | HumanMessage string

record fact_record =
  title :: string
  url :: string
  extracted_facts :: string

type_synonym dataframe = "(string \<times> string option) list list"
  \<comment> \<open>the rows of the sheet; a row lists each column name with its cell, and an empty
      cell is \<open>None\<close>\<close>

datatype event =
    Invoke "message list"
  | SimilaritySearch string nat
  | ReadExcel path
  | FromTexts "string list" "metadata list"
  | SaveLocal path
  | LoadLocal path
  | Print string
  | Display string
  | StTitle string
  | StMarkdown string
  | StError string

record world =
  files :: "path \<rightharpoonup> string"
  trace :: "event list"

text \<open>
  The libraries and services the program delegates to are parameters. An answer of a
  service may depend on everything that happened before (the trace), so that a call can
  fail once and succeed later. \<open>Inl\<close> is a raised exception.
\<close>

record 'vs env =
  md5 :: "string \<Rightarrow> 128 word"
  read_excel :: "string \<Rightarrow> exn + dataframe"
  split_text :: "string \<Rightarrow> string list"
  from_texts :: "event list \<Rightarrow> string list \<Rightarrow> metadata list \<Rightarrow> exn + 'vs"
  save_local :: "event list \<Rightarrow> 'vs \<Rightarrow> (exn \<times> string option) + (string \<times> string)"
  load_local :: "event list \<Rightarrow> string option \<Rightarrow> string option \<Rightarrow> exn + 'vs"
  similarity_search :: "event list \<Rightarrow> 'vs \<Rightarrow> string \<Rightarrow> nat \<Rightarrow> exn + document list"
  chat_invoke :: "event list \<Rightarrow> message list \<Rightarrow> exn + string"
  chat_init :: "exn option"
  tmp_name :: "event list \<Rightarrow> path"

definition log_event :: "world \<Rightarrow> event \<Rightarrow> world" where
  "log_event w ev = w\<lparr>trace := trace w @ [ev]\<rparr>"

definition new_events :: "world \<Rightarrow> world \<Rightarrow> event list" where
  \<comment> \<open>what a run from \<open>w\<close> to \<open>w'\<close> added to the trace\<close>
  "new_events w w' = drop (length (trace w)) (trace w')"

definition EMBEDDINGS_DIRECTORY :: path where
  "EMBEDDINGS_DIRECTORY = ''./vstore''"

definition VECTORSTORE_NAME :: path where
  "VECTORSTORE_NAME = ''mkb_challenge_store''"

definition EXCEL_FILENAME :: path where
  "EXCEL_FILENAME = ''MKB-challenge-data.xlsx''"

definition path_join :: "path list \<Rightarrow> path" where
  \<comment> \<open>\<open>os.path.join\<close> on relative components\<close>
  "path_join ps = join ''/'' ps"

section \<open>core.py\<close>

definition has_relevant_facts :: "string \<Rightarrow> bool" where
  "has_relevant_facts extracted =
     (strip extracted \<notin> set [''[]'', [CHR 0x22, CHR 0x22], ''''])"

definition extraction_messages :: "string \<Rightarrow> document \<Rightarrow> message list" where
  "extraction_messages question doc =
     [SystemMessage ''You are a challenge information extractor. [...]'',
      HumanMessage (''Question: '' @ question @ ''\<newline>\<newline>Article:\<newline>'' @ page_content doc)]"

definition invoke :: "'vs env \<Rightarrow> world \<Rightarrow> message list \<Rightarrow> (exn + string) \<times> world" where
  \<comment> \<open>\<open>chat_model.invoke(messages).content\<close>\<close>
  "invoke env w msgs = (chat_invoke env (trace w) msgs, log_event w (Invoke msgs))"

definition debug_msg :: "string \<Rightarrow> string \<Rightarrow> string" where
  "debug_msg ttl extracted =
     (if has_relevant_facts extracted
      then ''[Extracted from '' @ [CHR 0x27] @ ttl @ [CHR 0x27] @ '']:\<newline>\<newline>'' @ extracted
      else ''[No useful info from '' @ [CHR 0x27] @ ttl @ [CHR 0x27] @ '']'')"

fun extract_loop ::
  "'vs env \<Rightarrow> string \<Rightarrow> bool \<Rightarrow> document list \<Rightarrow> fact_record list \<Rightarrow> world
     \<Rightarrow> fact_record list \<times> world" where
  \<comment> \<open>the \<open>for doc in docs\<close> loop; the accumulator is \<open>relevant_info_list\<close>\<close>
  "extract_loop env question debug_mode [] relevant_info_list w = (relevant_info_list, w)"
| "extract_loop env question debug_mode (doc # docs) relevant_info_list w =
     (case invoke env w (extraction_messages question doc) of
        (Inl e, w1) \<Rightarrow>
          extract_loop env question debug_mode docs relevant_info_list
            (log_event w1 (Print (''[!] Extraction failed: '' @ e)))
      | (Inr content, w1) \<Rightarrow>
          (let extracted = strip content;
               w2 = (if debug_mode
                     then log_event w1
                            (Display (debug_msg (dict_get (metadata doc) ''title'' ''No title'')
                                        extracted))
                     else w1)
           in extract_loop env question debug_mode docs
                (relevant_info_list @
                   [\<lparr>title = dict_get (metadata doc) ''title'' ''No title'',
                     url = dict_get (metadata doc) ''url'' ''No URL'',
                     extracted_facts = extracted\<rparr>])
                w2))"

definition extract_relevant_info ::
  "'vs env \<Rightarrow> world \<Rightarrow> document list \<Rightarrow> string \<Rightarrow> bool
     \<Rightarrow> (fact_record list \<times> string) \<times> world" where
  "extract_relevant_info env w docs question debug_mode =
     (case extract_loop env question debug_mode docs [] w of
        (relevant_info_list, w') \<Rightarrow>
          (let used_sources =
                 filter (\<lambda>info. has_relevant_facts (extracted_facts info)) relevant_info_list;
               combined_text = join ''\<newline>'' (map extracted_facts used_sources)
           in ((used_sources, combined_text), w')))"

fun append_chunks ::
  "string list \<Rightarrow> metadata \<Rightarrow> string list \<times> metadata list \<Rightarrow> string list \<times> metadata list" where
  \<comment> \<open>the inner loop \<open>for chunk in splitter.split_text(text)\<close>\<close>
  "append_chunks [] md (chunks, metadatas) = (chunks, metadatas)"
| "append_chunks (chunk # rest) md (chunks, metadatas) =
     append_chunks rest md (chunks @ [chunk], metadatas @ [md])"

fun chunk_loop ::
  "(string \<Rightarrow> string list) \<Rightarrow> (string \<times> metadata) list \<Rightarrow> string list \<times> metadata list
     \<Rightarrow> string list \<times> metadata list" where
  \<comment> \<open>the outer loop \<open>for text, metadata in texts_with_metadata\<close>\<close>
  "chunk_loop splitter [] acc = acc"
| "chunk_loop splitter ((text, md) # rest) acc =
     chunk_loop splitter rest (append_chunks (splitter text) md acc)"

definition get_text_chunks ::
  "'vs env \<Rightarrow> (string \<times> metadata) list \<Rightarrow> string list \<times> metadata list" where
  \<comment> \<open>\<open>split_text env\<close> is the splitter with chunk size 1000 and overlap 100\<close>
  "get_text_chunks env texts_with_metadata =
     chunk_loop (split_text env) texts_with_metadata ([], [])"

definition store_folder :: path where
  "store_folder = path_join [EMBEDDINGS_DIRECTORY, VECTORSTORE_NAME]"

definition create_vectorstore ::
  "'vs env \<Rightarrow> world \<Rightarrow> string list \<Rightarrow> metadata list \<Rightarrow> (exn + 'vs) \<times> world" where
  \<comment> \<open>directories are not part of the file system here, so \<open>os.makedirs\<close> has no
      effect; a failing \<open>save_local\<close> may already have written the index artifact\<close>
  "create_vectorstore env w texts metadatas =
     (let w1 = log_event w (FromTexts texts metadatas)
      in case from_texts env (trace w) texts metadatas of
           Inl e \<Rightarrow> (Inl e, w1)
         | Inr vectorstore \<Rightarrow>
             (let w2 = log_event w1 (SaveLocal store_folder)
              in case save_local env (trace w1) vectorstore of
                   Inl (e, None) \<Rightarrow> (Inl e, w2)
                 | Inl (e, Some faiss) \<Rightarrow>
                     (Inl e,
                      w2\<lparr>files := (files w2)(path_join [store_folder, ''index.faiss''] \<mapsto> faiss)\<rparr>)
                 | Inr (faiss, pkl) \<Rightarrow>
                     (Inr vectorstore,
                      w2\<lparr>files := (files w2)
                            (path_join [store_folder, ''index.faiss''] \<mapsto> faiss,
                             path_join [store_folder, ''index.pkl''] \<mapsto> pkl)\<rparr>)))"

definition load_vectorstore :: "'vs env \<Rightarrow> world \<Rightarrow> (exn + 'vs) \<times> world" where
  "load_vectorstore env w =
     (load_local env (trace w)
        (files w (path_join [store_folder, ''index.faiss'']))
        (files w (path_join [store_folder, ''index.pkl''])),
      log_event w (LoadLocal store_folder))"

definition initialize_chat_models :: "'vs env \<Rightarrow> exn + unit" where
  \<comment> \<open>the chat model itself is \<open>chat_invoke env\<close>; building the client may raise\<close>
  "initialize_chat_models env = (case chat_init env of Some e \<Rightarrow> Inl e | None \<Rightarrow> Inr ())"

definition title_matches :: "string \<Rightarrow> document \<Rightarrow> bool" where
  "title_matches challenge_name doc =
     (lower (strip (dict_get (metadata doc) ''title'' [])) = lower (strip challenge_name))"

definition no_match_message :: "string \<Rightarrow> string" where
  "no_match_message challenge_name =
     ''Geen exacte match gevonden voor '' @ [CHR 0x27] @ challenge_name @ [CHR 0x27] @ ''.''"

definition no_facts_message :: string where
  "no_facts_message = ''Geen relevante informatie gevonden voor deze uitdaging.''"

definition email_prompt :: "string \<Rightarrow> string \<Rightarrow> message list" where
  "email_prompt combined_text company_name =
     [SystemMessage ''[...]'',
      HumanMessage (''Challenge info:\<newline>'' @ combined_text @
                    ''\<newline>\<newline>Company name: '' @ company_name)]"

definition generate_cold_email ::
  "'vs env \<Rightarrow> world \<Rightarrow> string \<Rightarrow> string \<Rightarrow> 'vs \<Rightarrow> (exn + string) \<times> world" where
  "generate_cold_email env w challenge_name company_name vectorstore =
     (let w1 = log_event w (SimilaritySearch challenge_name 6)
      in case similarity_search env (trace w) vectorstore challenge_name 6 of
           Inl e \<Rightarrow> (Inl e, w1)
         | Inr docs \<Rightarrow>
             (let filtered_docs = filter (title_matches challenge_name) docs
              in if filtered_docs = [] then (Inr (no_match_message challenge_name), w1)
                 else
                   (case extract_relevant_info env w1 filtered_docs challenge_name False of
                      ((used_sources, combined_text), w2) \<Rightarrow>
                        if strip combined_text = [] then (Inr no_facts_message, w2)
                        else
                          (case invoke env w2 (email_prompt combined_text company_name) of
                             (Inl e, w3) \<Rightarrow> (Inl e, w3)
                           | (Inr content, w3) \<Rightarrow> (Inr (strip content), w3)))))"

definition file_not_found :: "path \<Rightarrow> exn" where
  \<comment> \<open>the text of the FileNotFoundError raised by \<open>open\<close>\<close>
  "file_not_found filename =
     ''[Errno 2] No such file or directory: '' @ [CHR 0x27] @ filename @ [CHR 0x27]"

definition hex_digit :: "nat \<Rightarrow> char" where
  "hex_digit n = (if n < 10 then char_of (48 + n) else char_of (87 + n))"

definition hexdigest :: "128 word \<Rightarrow> string" where
  \<comment> \<open>the 16 bytes of the digest, two lowercase hexadecimal digits each\<close>
  "hexdigest d = map (\<lambda>i. hex_digit (unat (drop_bit (4 * (31 - i)) d AND 15))) [0..<32]"

definition get_excel_hash :: "'vs env \<Rightarrow> world \<Rightarrow> path \<Rightarrow> exn + string" where
  "get_excel_hash env w filename =
     (case files w filename of
        None \<Rightarrow> Inl (file_not_found filename)
      | Some bytes \<Rightarrow> Inr (hexdigest (md5 env bytes)))"

definition fillna :: "string \<Rightarrow> dataframe \<Rightarrow> (string \<times> string) list list" where
  "fillna v df = map (map (\<lambda>(col, cell). (col, case cell of None \<Rightarrow> v | Some x \<Rightarrow> x))) df"

definition row_get :: "(string \<times> string) list \<Rightarrow> string \<Rightarrow> string \<Rightarrow> string" where
  \<comment> \<open>\<open>row.get(key, default)\<close>\<close>
  "row_get row k dflt = (case map_of row k of None \<Rightarrow> dflt | Some v \<Rightarrow> v)"

definition row_text_with_metadata :: "(string \<times> string) list \<Rightarrow> string \<times> metadata" where
  "row_text_with_metadata row =
     (join '' | '' (map (\<lambda>(col, v). col @ '': '' @ v) row),
      [''title'' \<mapsto> row_get row ''Challenge Name'' ''No title'',
       ''url'' \<mapsto> row_get row ''URL'' ''No URL'',
       ''source'' \<mapsto> ''MKB-challenge-data''])"

definition hash_path :: path where
  "hash_path = path_join [EMBEDDINGS_DIRECTORY, VECTORSTORE_NAME, ''hash.txt'']"

definition vectorstore_path :: path where
  "vectorstore_path = path_join [EMBEDDINGS_DIRECTORY, VECTORSTORE_NAME, ''index.faiss'']"

definition stored_hash :: "world \<Rightarrow> string option" where
  \<comment> \<open>\<open>None\<close> when there is no hash file, else its stripped content\<close>
  "stored_hash w = (case files w hash_path of None \<Rightarrow> None | Some content \<Rightarrow> Some (strip content))"

definition load_or_create_vectorstore ::
  "'vs env \<Rightarrow> world \<Rightarrow> path \<Rightarrow> (exn + 'vs) \<times> world" where
  "load_or_create_vectorstore env w excel_path =
     (case get_excel_hash env w excel_path of
        Inl e \<Rightarrow> (Inl e, w)
      | Inr current_hash \<Rightarrow>
          if files w vectorstore_path = None \<or> stored_hash w \<noteq> Some current_hash
          then
            (let w1 = log_event w (ReadExcel excel_path)
             in case (case files w excel_path of
                        None \<Rightarrow> Inl (file_not_found excel_path)
                      | Some bytes \<Rightarrow> read_excel env bytes) of
                  Inl e \<Rightarrow> (Inl e, w1)
                | Inr df0 \<Rightarrow>
                    (let df = fillna [] df0;
                         texts_with_metadata = map row_text_with_metadata df
                     in case get_text_chunks env texts_with_metadata of
                          (chunks, metadatas) \<Rightarrow>
                            (case create_vectorstore env w1 chunks metadatas of
                               (Inl e, w2) \<Rightarrow> (Inl e, w2)
                             | (Inr vectorstore, w2) \<Rightarrow>
                                 (Inr vectorstore,
                                  w2\<lparr>files := (files w2)(hash_path \<mapsto> current_hash)\<rparr>))))
          else load_vectorstore env w)"

definition parse_input :: "string \<Rightarrow> string option \<times> string option" where
  "parse_input user_input =
     (let parts = split_sep (CHR ''|'') user_input
      in if length parts = 2 then (Some (strip (parts ! 0)), Some (strip (parts ! 1)))
         else (None, None))"

section \<open>interface.py\<close>

record ui_input =
  uploaded_file :: "string option"
  user_input :: string
  button :: bool

text \<open>
  The fixed texts of the page. The pictographs and the dash of the source texts lie outside
  the character range and are left out.
\<close>

definition page_title :: string where
  "page_title = ''Marketing Email Generator''"

definition page_intro :: string where
  "page_intro =
     ''\<newline>Welcome to the MKB Marketing Email Generator - an app that automatically '' @
     ''generates personalized invitations for innovation challenges for Dutch SMEs.\<newline>    ''"

definition format_error :: string where
  "format_error =
     ''Incorrect format. Use: '' @ [CHR 0x27] @ ''Challenge Name | Company Name'' @ [CHR 0x27]"

definition render_email :: "world \<Rightarrow> string \<Rightarrow> world" where
  \<comment> \<open>the \<open>st.markdown\<close> of the email; \<open>email.splitlines()[0]\<close> raises IndexError on an
      email without lines, inside the \<open>try\<close>\<close>
  "render_email w email =
     (case splitlines email of
        [] \<Rightarrow> log_event w (StError (''Email generation failed: '' @ ''list index out of range''))
      | first_line # other_lines \<Rightarrow>
          log_event w (StMarkdown (first_line @ ''\<newline>\<newline>'' @ join ''\<newline>'' other_lines)))"

definition page_setup :: "'vs env \<Rightarrow> world \<Rightarrow> ui_input \<Rightarrow> path \<times> world" where
  \<comment> \<open>steps 1 and 2 of the page: the path of the sheet and the world once the page is
      drawn; an uploaded sheet is saved to a temporary file, and the write is taken to
      have reached the disk\<close>
  "page_setup env w inp =
     (let w0 = log_event (log_event (log_event w (StTitle page_title)) (StMarkdown page_intro))
                 (StMarkdown ''## Step 1: Upload Excel file'');
          upload = (case uploaded_file inp of
                      Some bytes \<Rightarrow>
                        (let temp_excel = tmp_name env (trace w0)
                         in (temp_excel, w0\<lparr>files := (files w0)(temp_excel \<mapsto> bytes)\<rparr>))
                    | None \<Rightarrow> (''MKB-challenge-data.xlsx'', w0))
      in (fst upload,
          log_event (snd upload) (StMarkdown ''## Step 2: Enter Challenge + Company name'')))"

definition main :: "'vs env \<Rightarrow> world \<Rightarrow> ui_input \<Rightarrow> world" where
  "main env w inp =
     (case page_setup env w inp of
        (excel_path, w2) \<Rightarrow>
          if \<not> button inp then w2
          else
            (case parse_input (user_input inp) of
               (Some challenge_name, Some company_name) \<Rightarrow>
                 if challenge_name = [] \<or> company_name = []
                 then log_event w2 (StError format_error)
                 else
                   (case load_or_create_vectorstore env w2 excel_path of
                      (Inl e, w3) \<Rightarrow> log_event w3 (StError (''Error loading resources: '' @ e))
                    | (Inr vectorstore, w3) \<Rightarrow>
                        (case initialize_chat_models env of
                           Inl e \<Rightarrow> log_event w3 (StError (''Error loading resources: '' @ e))
                         | Inr chat_models \<Rightarrow>
                             (case generate_cold_email env w3 challenge_name company_name
                                     vectorstore of
                                (Inl e, w4) \<Rightarrow>
                                  log_event w4 (StError (''Email generation failed: '' @ e))
                              | (Inr email, w4) \<Rightarrow> render_email w4 email)))
             | _ \<Rightarrow> log_event w2 (StError format_error)))"

section \<open>Observations on a trace\<close>

fun invocations :: "event list \<Rightarrow> message list list" where
  \<comment> \<open>the prompts sent to the chat model, in order\<close>
  "invocations [] = []"
| "invocations (Invoke msgs # evs) = msgs # invocations evs"
| "invocations (_ # evs) = invocations evs"

fun rendered :: "event list \<Rightarrow> string list" where
  \<comment> \<open>the texts drawn by \<open>st.markdown\<close>, in order\<close>
  "rendered [] = []"
| "rendered (StMarkdown s # evs) = s # rendered evs"
| "rendered (_ # evs) = rendered evs"

section \<open>The extraction stage in the words of the specification\<close>

definition after_document ::
  "string \<Rightarrow> bool \<Rightarrow> world \<Rightarrow> document \<Rightarrow> exn + string \<Rightarrow> world" where
  \<comment> \<open>the world once a document's call has been answered: the call, and the logged
      failure or the debug display\<close>
  "after_document question debug_mode w doc response =
     (let w1 = log_event w (Invoke (extraction_messages question doc))
      in case response of
           Inl e \<Rightarrow> log_event w1 (Print (''[!] Extraction failed: '' @ e))
         | Inr content \<Rightarrow>
             if debug_mode
             then log_event w1
                    (Display (debug_msg (dict_get (metadata doc) ''title'' ''No title'')
                                (strip content)))
             else w1)"

fun model_responses ::
  "'vs env \<Rightarrow> string \<Rightarrow> bool \<Rightarrow> world \<Rightarrow> document list \<Rightarrow> (document \<times> (exn + string)) list" where
  \<comment> \<open>each document with the answer of its one model call\<close>
  "model_responses env question debug_mode w [] = []"
| "model_responses env question debug_mode w (doc # docs) =
     (let response = chat_invoke env (trace w) (extraction_messages question doc)
      in (doc, response) #
         model_responses env question debug_mode
           (after_document question debug_mode w doc response) docs)"

definition source_record :: "document \<times> (exn + string) \<Rightarrow> fact_record option" where
  \<comment> \<open>the record kept for a document whose call returned\<close>
  "source_record dr =
     (case snd dr of
        Inl e \<Rightarrow> None
      | Inr content \<Rightarrow>
          Some \<lparr>title = dict_get (metadata (fst dr)) ''title'' ''No title'',
                 url = dict_get (metadata (fst dr)) ''url'' ''No URL'',
                 extracted_facts = strip content\<rparr>)"

definition is_sentinel :: "string \<Rightarrow> bool" where
  \<comment> \<open>the empty string, the empty-list literal, the empty-string literal\<close>
  "is_sentinel s = (s = [] \<or> s = ''[]'' \<or> s = [CHR 0x22, CHR 0x22])"

definition useful_source :: "document \<times> (exn + string) \<Rightarrow> fact_record option" where
  \<comment> \<open>the record of a document whose trimmed response is no sentinel\<close>
  "useful_source dr =
     (case snd dr of
        Inl e \<Rightarrow> None
      | Inr content \<Rightarrow>
          if is_sentinel (strip content) then None
          else Some \<lparr>title = dict_get (metadata (fst dr)) ''title'' ''No title'',
                     url = dict_get (metadata (fst dr)) ''url'' ''No URL'',
                     extracted_facts = strip content\<rparr>)"

section \<open>The staleness check in the words of the specification\<close>

definition isStale :: "string \<Rightarrow> string option \<Rightarrow> bool \<Rightarrow> bool" where
  \<comment> \<open>true if the index does not exist, or the stored fingerprint is absent or different
      from the current one\<close>
  "isStale currentFingerprint storedFingerprint indexExists =
     (\<not> indexExists \<or> storedFingerprint = None \<or> storedFingerprint \<noteq> Some currentFingerprint)"


section \<open>A sample environment\<close>

text \<open>
  Concrete services and documents on which the theorems below are instantiated: a chat
  model that answers by the last character of the article (and fails on \<open>b\<close>), a store
  whose search result and build result are given, and a sheet of one row.
\<close>

definition sample_chat :: "event list \<Rightarrow> message list \<Rightarrow> exn + string" where
  "sample_chat hist msgs =
     (case msgs of
        [SystemMessage s, HumanMessage h] \<Rightarrow>
          if s = ''[...]'' then Inr ''Dear Acme BV,\<newline>Join us. ''
          else if last h = CHR ''a'' then Inr '' fact A ''
          else if last h = CHR ''b'' then Inl ''timeout''
          else if last h = CHR ''c'' then Inr '' [] ''
          else Inr ''fact D''
      | _ \<Rightarrow> Inl ''bad request'')"

definition failing_chat :: "event list \<Rightarrow> message list \<Rightarrow> exn + string" where
  \<comment> \<open>as \<open>sample_chat\<close>, but the generation call fails\<close>
  "failing_chat hist msgs =
     (case msgs of
        [SystemMessage s, HumanMessage h] \<Rightarrow>
          if s = ''[...]'' then Inl ''rate limit'' else sample_chat hist msgs
      | _ \<Rightarrow> Inl ''bad request'')"

definition sample_env ::
  "(event list \<Rightarrow> message list \<Rightarrow> exn + string) \<Rightarrow> exn + unit \<Rightarrow> exn + document list \<Rightarrow> unit env" where
  "sample_env chat built found =
     \<lparr>md5 = (\<lambda>bytes. of_nat (length bytes)),
      read_excel = (\<lambda>bytes. Inr [[(''Challenge Name'', Some ''Smart Logistics''), (''URL'', None)]]),
      split_text = (\<lambda>text. [take 4 text, drop 3 text]),
      from_texts = (\<lambda>hist texts metadatas. built),
      save_local = (\<lambda>hist vectorstore. Inr (''faiss'', ''pkl'')),
      load_local = (\<lambda>hist faiss pkl. case faiss of None \<Rightarrow> Inl ''no index'' | Some b \<Rightarrow> Inr ()),
      similarity_search = (\<lambda>hist vectorstore query k. found),
      chat_invoke = chat,
      chat_init = None,
      tmp_name = (\<lambda>hist. ''/tmp/upload.xlsx'')\<rparr>"

definition doc_a :: document where
  "doc_a = \<lparr>page_content = ''a'', metadata = [''title'' \<mapsto> ''Smart Logistics'', ''url'' \<mapsto> ''u1'']\<rparr>"

definition doc_b :: document where
  "doc_b = \<lparr>page_content = ''b'', metadata = [''title'' \<mapsto> '' smart logistics '']\<rparr>"

definition doc_c :: document where
  "doc_c = \<lparr>page_content = ''c'', metadata = [''title'' \<mapsto> ''SMART LOGISTICS'', ''url'' \<mapsto> ''u3'']\<rparr>"

definition doc_d :: document where
  "doc_d = \<lparr>page_content = ''d'', metadata = [''title'' \<mapsto> ''Other'', ''url'' \<mapsto> ''u4'']\<rparr>"

definition empty_world :: world where
  "empty_world = \<lparr>files = Map.empty, trace = []\<rparr>"

definition sheet_world :: world where
  \<comment> \<open>the default sheet is on disk, and nothing else\<close>
  "sheet_world = \<lparr>files = [''MKB-challenge-data.xlsx'' \<mapsto> ''rows''], trace = []\<rparr>"

definition hash_only_world :: world where
  \<comment> \<open>the sheet and its matching fingerprint are on disk, the index artifact is not\<close>
  "hash_only_world =
     \<lparr>files = [''MKB-challenge-data.xlsx'' \<mapsto> ''rows'',
                ''./vstore/mkb_challenge_store/hash.txt'' \<mapsto> ''00000000000000000000000000000004''],
      trace = []\<rparr>"

definition indexed_world :: world where
  \<comment> \<open>the sheet, the index artifacts and the matching fingerprint are on disk\<close>
  "indexed_world =
     \<lparr>files = [''MKB-challenge-data.xlsx'' \<mapsto> ''rows'',
                ''./vstore/mkb_challenge_store/index.faiss'' \<mapsto> ''faiss'',
                ''./vstore/mkb_challenge_store/index.pkl'' \<mapsto> ''pkl'',
                ''./vstore/mkb_challenge_store/hash.txt'' \<mapsto>
                  ''00000000000000000000000000000004\<newline>''],
      trace = []\<rparr>"

definition sample_input :: ui_input where
  \<comment> \<open>no upload, a well-formed line, the button pressed\<close>
  "sample_input =
     \<lparr>uploaded_file = None, user_input = ''Smart Logistics | Acme BV'', button = True\<rparr>"


section \<open>Unfolding the sample environment and the string primitives\<close>

lemma char_eq_char_of: "(c = char_of (n::nat)) = (take_bit 8 n = of_char c)"
  using char_of_eq_iff [of n c] by auto

lemmas sample_defs = sample_env_def sample_chat_def failing_chat_def doc_a_def doc_b_def
  doc_c_def doc_d_def empty_world_def sheet_world_def hash_only_world_def indexed_world_def
  sample_input_def

lemmas str_defs = strip_def isspace_def lower_def lower_char_def char_of_eq_iff char_eq_char_of

section \<open>Facts about the string primitives\<close>

lemma split_sep_length: "length (split_sep sep s) = Suc (count_list s sep)"
  by (induction s) (auto split: list.splits)

lemma split_sep_ne: "split_sep sep s \<noteq> []"
  by (induction s) (auto split: list.splits)

lemma split_sep_hd: "hd (split_sep sep s) = takeWhile (\<lambda>c. c \<noteq> sep) s"
proof (induction s)
  case Nil
  show ?case by simp
next
  case (Cons c cs)
  obtain p ps where ps: "split_sep sep cs = p # ps"
    using split_sep_ne [of sep cs] by (cases "split_sep sep cs") simp_all
  with Cons show ?case by simp
qed

lemma split_sep_tl:
  "tl (split_sep sep s) =
     (case dropWhile (\<lambda>c. c \<noteq> sep) s of [] \<Rightarrow> [] | _ # rest \<Rightarrow> split_sep sep rest)"
proof (induction s)
  case Nil
  show ?case by simp
next
  case (Cons c cs)
  obtain p ps where ps: "split_sep sep cs = p # ps"
    using split_sep_ne [of sep cs] by (cases "split_sep sep cs") simp_all
  with Cons show ?case by simp
qed

lemma split_sep_no_sep: "sep \<notin> set s \<Longrightarrow> split_sep sep s = [s]"
  by (induction s) auto

lemma count_list_0: "count_list s c = 0 \<longleftrightarrow> c \<notin> set s"
  by (induction s) auto

section \<open>Input parsing\<close>

text \<open>
  Claim C4, as the code has it: \<open>parse_input\<close> returns the two trimmed parts exactly when
  the raw string holds one \<open>|\<close> delimiter, whether or not a trimmed part is empty, and
  \<open>(None, None)\<close> for every other number of delimiters.
\<close>

theorem parse_input_amended:
  "parse_input s =
     (if count_list s (CHR ''|'') = 1
      then (Some (strip (takeWhile (\<lambda>c. c \<noteq> CHR ''|'') s)),
            Some (strip (tl (dropWhile (\<lambda>c. c \<noteq> CHR ''|'') s))))
      else (None, None))"
proof (cases "count_list s (CHR ''|'') = 1")
  case True
  let ?P = "\<lambda>c. c \<noteq> CHR ''|''"
  let ?ps = "split_sep (CHR ''|'') s"
  have "CHR ''|'' \<in> set s"
    using True count_list_0 [of s "CHR ''|''"] by simp
  then have "dropWhile ?P s \<noteq> []" by simp
  then obtain d rest where dw: "dropWhile ?P s = d # rest"
    by (cases "dropWhile ?P s") simp_all
  have "d = CHR ''|''"
    using hd_dropWhile [of ?P s] dw by simp
  have "takeWhile ?P s @ dropWhile ?P s = s" by (rule takeWhile_dropWhile_id)
  then have "count_list s (CHR ''|'') =
      count_list (takeWhile ?P s) (CHR ''|'') + count_list (d # rest) (CHR ''|'')"
    using dw by (metis count_list_append)
  moreover have "count_list (takeWhile ?P s) (CHR ''|'') = 0"
    using set_takeWhileD [of "CHR ''|''" ?P s] by (auto simp add: count_list_0)
  ultimately have "count_list rest (CHR ''|'') = 0"
    using True \<open>d = CHR ''|''\<close> by simp
  then have "CHR ''|'' \<notin> set rest" by (simp add: count_list_0)
  then have r: "split_sep (CHR ''|'') rest = [rest]" by (rule split_sep_no_sep)
  have "?ps = hd ?ps # tl ?ps" using split_sep_ne [of "CHR ''|''" s] by simp
  then have "?ps = [takeWhile ?P s, rest]"
    by (simp add: split_sep_hd split_sep_tl dw r)
  then show ?thesis using True dw by (simp add: parse_input_def)
next
  case False
  then show ?thesis by (simp add: parse_input_def split_sep_length)
qed

text \<open>The amended statement at the well-formed input of the specification.\<close>

theorem parse_input_amended_witness:
  "parse_input ''Smart Logistics | Acme BV'' = (Some ''Smart Logistics'', Some ''Acme BV'')"
  using parse_input_amended [of "''Smart Logistics | Acme BV''"]
  by (simp add: strip_def isspace_def)

text \<open>
  Claim C4 as stated fails: a part that is empty after trimming does not make
  \<open>parse_input\<close> return \<open>(None, None)\<close>.
\<close>

theorem parse_input_empty_part_counterexample:
  "strip (hd (split_sep (CHR ''|'') '' | Acme BV'')) = [] \<and>
   parse_input '' | Acme BV'' \<noteq> (None, None)"
  by (simp add: parse_input_def strip_def isspace_def)

section \<open>The extraction stage\<close>

lemma dropWhile_strip_head: "dropWhile P (rev (dropWhile P (rev (dropWhile P s)))) = rev (dropWhile P (rev (dropWhile P s)))"
proof -
  let ?t = "dropWhile P s"
  show ?thesis
  proof (cases "rev (dropWhile P (rev ?t)) = []")
    case True
    show ?thesis unfolding True by simp
  next
    case False
    have ne: "?t \<noteq> []"
    proof
      assume "?t = []"
      then have "rev (dropWhile P (rev ?t)) = []" by (simp only: rev.simps dropWhile.simps)
      with False show False by simp
    qed
    then have "\<not> P (hd ?t)" by (rule hd_dropWhile)
    have "rev ?t = takeWhile P (rev ?t) @ dropWhile P (rev ?t)" by simp
    then have "?t = rev (dropWhile P (rev ?t)) @ rev (takeWhile P (rev ?t))"
      by (metis rev_append rev_rev_ident)
    then have "hd ?t = hd (rev (dropWhile P (rev ?t)))"
      using False by (metis hd_append2)
    with \<open>\<not> P (hd ?t)\<close> have "\<not> P (hd (rev (dropWhile P (rev ?t))))" by simp
    with False show ?thesis by (cases "rev (dropWhile P (rev ?t))") simp_all
  qed
qed

lemma strip_idem: "strip (strip s) = strip s"
  unfolding strip_def by (simp add: dropWhile_strip_head dropWhile_idem)

lemma has_relevant_facts_strip: "has_relevant_facts (strip s) = (\<not> is_sentinel (strip s))"
  by (auto simp add: has_relevant_facts_def is_sentinel_def strip_idem)

lemma extract_loop_records:
  "fst (extract_loop env q dbg docs acc w) =
     acc @ List.map_filter source_record (model_responses env q dbg w docs)"
proof (induction docs arbitrary: acc w)
  case Nil
  show ?case by (simp add: List.map_filter_simps)
next
  case (Cons doc docs)
  show ?case
  proof (cases "chat_invoke env (trace w) (extraction_messages q doc)")
    case (Inl e)
    then show ?thesis
      by (simp add: invoke_def Cons.IH after_document_def source_record_def
            List.map_filter_simps Let_def)
  next
    case (Inr content)
    then show ?thesis
      by (simp add: invoke_def Cons.IH after_document_def source_record_def
            List.map_filter_simps Let_def)
  qed
qed

lemma filter_source_records:
  "filter (\<lambda>info. has_relevant_facts (extracted_facts info)) (List.map_filter source_record drs) =
     List.map_filter useful_source drs"
proof (induction drs)
  case Nil
  show ?case by (simp add: List.map_filter_simps)
next
  case (Cons dr drs)
  then show ?case
    by (cases "snd dr")
       (simp_all add: List.map_filter_simps source_record_def useful_source_def
          has_relevant_facts_strip)
qed

text \<open>
  Claim C2: a document is among \<open>used_sources\<close> exactly when its model call returned and
  the response, after trimming, is none of the sentinels; the sources keep the order of the
  documents, and \<open>combined_text\<close> is their extracted facts joined by newlines. In
  \<open>model_responses\<close> each document stands with its response, in document order, and
  \<open>useful_source\<close> keeps exactly the non-sentinel ones.
\<close>

theorem extract_relevant_info_sources:
  assumes "extract_relevant_info env w docs question debug_mode = ((used_sources, combined_text), w')"
  shows "used_sources = List.map_filter useful_source (model_responses env question debug_mode w docs) \<and>
         combined_text = join ''\<newline>'' (map extracted_facts used_sources)"
proof -
  obtain infos w1 where loop: "extract_loop env question debug_mode docs [] w = (infos, w1)"
    by (cases "extract_loop env question debug_mode docs [] w") blast
  have infos: "infos = List.map_filter source_record (model_responses env question debug_mode w docs)"
    using extract_loop_records [of env question debug_mode docs "[]" w] loop by simp
  from assms loop have us: "used_sources = filter (\<lambda>info. has_relevant_facts (extracted_facts info)) infos"
    and ct: "combined_text = join ''\<newline>'' (map extracted_facts used_sources)"
    by (auto simp add: extract_relevant_info_def Let_def)
  from us infos have "used_sources = List.map_filter useful_source (model_responses env question debug_mode w docs)"
    by (simp add: filter_source_records)
  with ct show ?thesis by simp
qed

text \<open>
  The statement on four sample documents: the call for \<open>b\<close> fails and the response for
  \<open>c\<close> trims to the empty-list literal.
\<close>

theorem extract_relevant_info_sources_witness:
  "extract_relevant_info (sample_env sample_chat (Inr ()) (Inr [])) empty_world
       [doc_a, doc_b, doc_c, doc_d] ''Smart Logistics'' False =
     (([\<lparr>title = ''Smart Logistics'', url = ''u1'', extracted_facts = ''fact A''\<rparr>,
        \<lparr>title = ''Other'', url = ''u4'', extracted_facts = ''fact D''\<rparr>],
       ''fact A\<newline>fact D''),
      snd (extract_relevant_info (sample_env sample_chat (Inr ()) (Inr [])) empty_world
             [doc_a, doc_b, doc_c, doc_d] ''Smart Logistics'' False)) \<and>
   [\<lparr>title = ''Smart Logistics'', url = ''u1'', extracted_facts = ''fact A''\<rparr>,
    \<lparr>title = ''Other'', url = ''u4'', extracted_facts = ''fact D''\<rparr>] =
     List.map_filter useful_source
       (model_responses (sample_env sample_chat (Inr ()) (Inr [])) ''Smart Logistics'' False
          empty_world [doc_a, doc_b, doc_c, doc_d]) \<and>
   ''fact A\<newline>fact D'' =
     join ''\<newline>''
       (map extracted_facts
          [\<lparr>title = ''Smart Logistics'', url = ''u1'', extracted_facts = ''fact A''\<rparr>,
           \<lparr>title = ''Other'', url = ''u4'', extracted_facts = ''fact D''\<rparr>])"
proof -
  have run:
    "extract_relevant_info (sample_env sample_chat (Inr ()) (Inr [])) empty_world
         [doc_a, doc_b, doc_c, doc_d] ''Smart Logistics'' False =
       (([\<lparr>title = ''Smart Logistics'', url = ''u1'', extracted_facts = ''fact A''\<rparr>,
          \<lparr>title = ''Other'', url = ''u4'', extracted_facts = ''fact D''\<rparr>],
         ''fact A\<newline>fact D''),
        snd (extract_relevant_info (sample_env sample_chat (Inr ()) (Inr [])) empty_world
               [doc_a, doc_b, doc_c, doc_d] ''Smart Logistics'' False))"
    by (simp add: sample_defs str_defs extract_relevant_info_def invoke_def log_event_def
          extraction_messages_def has_relevant_facts_def dict_get_def Let_def)
  show ?thesis by (rule conjI [OF run extract_relevant_info_sources [OF run]])
qed

section \<open>The trace of the extraction loop\<close>

lemma invocations_append: "invocations (xs @ ys) = invocations xs @ invocations ys"
  by (induction xs rule: invocations.induct) simp_all

lemma rendered_append: "rendered (xs @ ys) = rendered xs @ rendered ys"
  by (induction xs rule: rendered.induct) simp_all

lemma new_events_append: "trace w' = trace w @ evs \<Longrightarrow> new_events w w' = evs"
  by (simp add: new_events_def)

lemma trace_log_event: "trace (log_event w ev) = trace w @ [ev]"
  by (simp add: log_event_def)

lemma files_log_event: "files (log_event w ev) = files w"
  by (simp add: log_event_def)

lemma extract_loop_step:
  "extract_loop env q dbg (doc # docs) acc w =
     extract_loop env q dbg docs
       (acc @ (case source_record (doc, chat_invoke env (trace w) (extraction_messages q doc)) of
                 None \<Rightarrow> [] | Some info \<Rightarrow> [info]))
       (after_document q dbg w doc (chat_invoke env (trace w) (extraction_messages q doc)))"
  by (cases "chat_invoke env (trace w) (extraction_messages q doc)")
     (simp_all add: invoke_def after_document_def source_record_def Let_def)

lemma after_document_world:
  "files (after_document q dbg w doc r) = files w \<and>
   (\<exists>evs. trace (after_document q dbg w doc r) = trace w @ Invoke (extraction_messages q doc) # evs \<and>
          invocations evs = [] \<and> rendered evs = [])"
proof (cases r)
  case (Inl e)
  then show ?thesis
    by (simp add: after_document_def Let_def trace_log_event files_log_event)
next
  case (Inr content)
  show ?thesis
  proof (cases dbg)
    case True
    with Inr show ?thesis
      by (simp add: after_document_def Let_def trace_log_event files_log_event)
  next
    case False
    with Inr show ?thesis
      by (simp add: after_document_def Let_def trace_log_event files_log_event)
  qed
qed

lemma extract_loop_world:
  "files (snd (extract_loop env q dbg docs acc w)) = files w \<and>
   (\<exists>evs. trace (snd (extract_loop env q dbg docs acc w)) = trace w @ evs \<and>
          invocations evs = map (extraction_messages q) docs \<and> rendered evs = [])"
proof (induction docs arbitrary: acc w)
  case Nil
  show ?case by simp
next
  case (Cons doc docs)
  let ?r = "chat_invoke env (trace w) (extraction_messages q doc)"
  let ?w = "after_document q dbg w doc ?r"
  let ?acc = "acc @ (case source_record (doc, ?r) of None \<Rightarrow> [] | Some info \<Rightarrow> [info])"
  have step: "extract_loop env q dbg (doc # docs) acc w = extract_loop env q dbg docs ?acc ?w"
    by (rule extract_loop_step)
  from after_document_world [of q dbg w doc ?r] obtain evs0 where
    f0: "files ?w = files w" and
    t0: "trace ?w = trace w @ Invoke (extraction_messages q doc) # evs0" and
    i0: "invocations evs0 = []" and r0: "rendered evs0 = []"
    by blast
  from Cons.IH [of ?acc ?w] obtain evs where
    f: "files (snd (extract_loop env q dbg docs ?acc ?w)) = files ?w" and
    t: "trace (snd (extract_loop env q dbg docs ?acc ?w)) = trace ?w @ evs" and
    i: "invocations evs = map (extraction_messages q) docs" and r: "rendered evs = []"
    by blast
  have "files (snd (extract_loop env q dbg (doc # docs) acc w)) = files w"
    using f f0 by (simp only: step)
  moreover have "trace (snd (extract_loop env q dbg (doc # docs) acc w)) =
      trace w @ (Invoke (extraction_messages q doc) # evs0 @ evs)"
    using t t0 by (simp only: step append_assoc append_Cons)
  moreover have "invocations (Invoke (extraction_messages q doc) # evs0 @ evs) =
      map (extraction_messages q) (doc # docs)"
    using i i0 by (simp add: invocations_append)
  moreover have "rendered (Invoke (extraction_messages q doc) # evs0 @ evs) = []"
    using r r0 by (simp add: rendered_append)
  ultimately show ?case by blast
qed

lemma extract_loop_snd_acc:
  "snd (extract_loop env q dbg docs acc w) = snd (extract_loop env q dbg docs [] w)"
proof (induction docs arbitrary: acc w)
  case Nil
  show ?case by simp
next
  case (Cons doc docs)
  let ?r = "chat_invoke env (trace w) (extraction_messages q doc)"
  let ?w = "after_document q dbg w doc ?r"
  let ?new = "case source_record (doc, ?r) of None \<Rightarrow> [] | Some info \<Rightarrow> [info]"
  have "snd (extract_loop env q dbg docs (acc @ ?new) ?w) = snd (extract_loop env q dbg docs [] ?w)"
    by (rule Cons.IH)
  moreover have "snd (extract_loop env q dbg docs ([] @ ?new) ?w) = snd (extract_loop env q dbg docs [] ?w)"
    by (rule Cons.IH)
  ultimately show ?case by (simp only: extract_loop_step)
qed

lemma extract_loop_acc:
  "extract_loop env q dbg docs acc w =
     (acc @ fst (extract_loop env q dbg docs [] w), snd (extract_loop env q dbg docs [] w))"
  using extract_loop_records [of env q dbg docs acc w] extract_loop_records [of env q dbg docs "[]" w]
    extract_loop_snd_acc [of env q dbg docs acc w]
  by (simp add: prod_eq_iff)

lemma extract_loop_append:
  "extract_loop env q dbg (xs @ ys) acc w =
     (case extract_loop env q dbg xs acc w of (acc1, w1) \<Rightarrow> extract_loop env q dbg ys acc1 w1)"
proof (induction xs arbitrary: acc w)
  case Nil
  show ?case by simp
next
  case (Cons doc xs)
  show ?case by (simp only: append_Cons extract_loop_step Cons.IH)
qed

lemma extract_relevant_info_world:
  assumes "extract_relevant_info env w docs q dbg = (res, w')"
  shows "files w' = files w"
    and "invocations (new_events w w') = map (extraction_messages q) docs"
    and "rendered (new_events w w') = []"
    and "length (trace w) \<le> length (trace w')"
proof -
  have w': "w' = snd (extract_loop env q dbg docs [] w)"
    using assms by (auto simp add: extract_relevant_info_def Let_def split: prod.splits)
  from extract_loop_world [of env q dbg docs "[]" w] w' obtain evs where
    f: "files w' = files w" and t: "trace w' = trace w @ evs" and
    i: "invocations evs = map (extraction_messages q) docs" and r: "rendered evs = []"
    by blast
  from f show "files w' = files w" .
  from t i show "invocations (new_events w w') = map (extraction_messages q) docs"
    by (simp add: new_events_append)
  from t r show "rendered (new_events w w') = []" by (simp add: new_events_append)
  from t show "length (trace w) \<le> length (trace w')" by simp
qed

text \<open>
  Claim C6: when the model call for one document raises, the failure is printed and the
  document is skipped; the result is that of the documents before it followed by that of
  the documents after it, and every document, also each one after the failure, gets its
  model call.
\<close>

theorem extraction_skips_failed_document:
  assumes before: "extract_relevant_info env w before question debug_mode = ((used1, text1), w1)"
    and failure: "chat_invoke env (trace w1) (extraction_messages question doc) = Inl e"
    and rest: "extract_relevant_info env
                 (log_event (log_event w1 (Invoke (extraction_messages question doc)))
                    (Print (''[!] Extraction failed: '' @ e)))
                 rest question debug_mode = ((used2, text2), w2)"
  shows "extract_relevant_info env w (before @ doc # rest) question debug_mode =
           ((used1 @ used2, join ''\<newline>'' (map extracted_facts (used1 @ used2))), w2) \<and>
         invocations (new_events w w2) =
           map (extraction_messages question) (before @ doc # rest)"
proof -
  let ?P = "\<lambda>info. has_relevant_facts (extracted_facts info)"
  let ?wf = "log_event (log_event w1 (Invoke (extraction_messages question doc)))
               (Print (''[!] Extraction failed: '' @ e))"
  obtain infos1 where l1: "extract_loop env question debug_mode before [] w = (infos1, w1)"
    and u1: "used1 = filter ?P infos1"
    using before by (auto simp add: extract_relevant_info_def Let_def split: prod.splits)
  obtain infos2 where l2: "extract_loop env question debug_mode rest [] ?wf = (infos2, w2)"
    and u2: "used2 = filter ?P infos2"
    using rest by (auto simp add: extract_relevant_info_def Let_def split: prod.splits)
  have "extract_loop env question debug_mode (doc # rest) infos1 w1 =
        extract_loop env question debug_mode rest infos1 ?wf"
    using failure by (simp add: invoke_def)
  also have "\<dots> = (infos1 @ infos2, w2)"
    using extract_loop_acc [of env question debug_mode rest infos1 ?wf] l2 by simp
  finally have "extract_loop env question debug_mode (before @ doc # rest) [] w = (infos1 @ infos2, w2)"
    using l1 by (simp add: extract_loop_append)
  then have whole: "extract_relevant_info env w (before @ doc # rest) question debug_mode =
           ((used1 @ used2, join ''\<newline>'' (map extracted_facts (used1 @ used2))), w2)"
    using u1 u2 by (simp add: extract_relevant_info_def Let_def)
  from extract_relevant_info_world(2) [OF whole] whole show ?thesis by simp
qed

text \<open>
  The statement on the sample documents, where the call for \<open>b\<close> fails after \<open>a\<close> and
  before \<open>c\<close> and \<open>d\<close>.
\<close>

theorem extraction_skips_failed_document_witness:
  "chat_invoke (sample_env sample_chat (Inr ()) (Inr []))
       (trace (log_event empty_world (Invoke (extraction_messages ''Smart Logistics'' doc_a))))
       (extraction_messages ''Smart Logistics'' doc_b) = Inl ''timeout'' \<and>
   fst (extract_relevant_info (sample_env sample_chat (Inr ()) (Inr [])) empty_world
          ([doc_a] @ doc_b # [doc_c, doc_d]) ''Smart Logistics'' False) =
     ([\<lparr>title = ''Smart Logistics'', url = ''u1'', extracted_facts = ''fact A''\<rparr>,
       \<lparr>title = ''Other'', url = ''u4'', extracted_facts = ''fact D''\<rparr>],
      ''fact A\<newline>fact D'') \<and>
   invocations (new_events empty_world
       (snd (extract_relevant_info (sample_env sample_chat (Inr ()) (Inr [])) empty_world
          ([doc_a] @ doc_b # [doc_c, doc_d]) ''Smart Logistics'' False))) =
     map (extraction_messages ''Smart Logistics'') [doc_a, doc_b, doc_c, doc_d]"
proof -
  let ?env = "sample_env sample_chat (Inr ()) (Inr [])"
  let ?q = "''Smart Logistics''"
  let ?w1 = "log_event empty_world (Invoke (extraction_messages ?q doc_a))"
  let ?wf = "log_event (log_event ?w1 (Invoke (extraction_messages ?q doc_b)))
               (Print (''[!] Extraction failed: '' @ ''timeout''))"
  let ?w2 = "log_event (log_event ?wf (Invoke (extraction_messages ?q doc_c)))
               (Invoke (extraction_messages ?q doc_d))"
  have before: "extract_relevant_info ?env empty_world [doc_a] ?q False =
      (([\<lparr>title = ''Smart Logistics'', url = ''u1'', extracted_facts = ''fact A''\<rparr>], ''fact A''), ?w1)"
    by (simp add: sample_defs str_defs extract_relevant_info_def invoke_def log_event_def
          extraction_messages_def has_relevant_facts_def dict_get_def Let_def)
  have failure: "chat_invoke ?env (trace ?w1) (extraction_messages ?q doc_b) = Inl ''timeout''"
    by (simp add: sample_defs extraction_messages_def)
  have rest: "extract_relevant_info ?env ?wf [doc_c, doc_d] ?q False =
      (([\<lparr>title = ''Other'', url = ''u4'', extracted_facts = ''fact D''\<rparr>], ''fact D''), ?w2)"
    by (simp add: sample_defs str_defs extract_relevant_info_def invoke_def log_event_def
          extraction_messages_def has_relevant_facts_def dict_get_def Let_def)
  from extraction_skips_failed_document [OF before failure rest] failure
  show ?thesis by simp
qed

section \<open>The orchestrator\<close>

lemma extract_relevant_info_trace:
  assumes "extract_relevant_info env w docs q dbg = (res, w')"
  shows "\<exists>evs. trace w' = trace w @ evs \<and>
               invocations evs = map (extraction_messages q) docs \<and> rendered evs = []"
proof -
  have "w' = snd (extract_loop env q dbg docs [] w)"
    using assms by (auto simp add: extract_relevant_info_def Let_def split: prod.splits)
  with extract_loop_world [of env q dbg docs "[]" w] show ?thesis by blast
qed

lemma generate_cold_email_unfold:
  assumes "similarity_search env (trace w) vectorstore challenge_name 6 = Inr docs"
    and "extract_relevant_info env (log_event w (SimilaritySearch challenge_name 6))
           (filter (title_matches challenge_name) docs) challenge_name False =
         ((used_sources, combined_text), w2)"
  shows "generate_cold_email env w challenge_name company_name vectorstore =
     (if filter (title_matches challenge_name) docs = []
      then (Inr (no_match_message challenge_name), log_event w (SimilaritySearch challenge_name 6))
      else if strip combined_text = [] then (Inr no_facts_message, w2)
      else (case chat_invoke env (trace w2) (email_prompt combined_text company_name) of
              Inl e \<Rightarrow> Inl e | Inr content \<Rightarrow> Inr (strip content),
            log_event w2 (Invoke (email_prompt combined_text company_name))))"
  using assms
  by (simp add: generate_cold_email_def Let_def invoke_def split: sum.splits)

lemma title_matches_filter:
  "filter (title_matches challenge_name) docs =
     filter (\<lambda>doc. lower (strip (dict_get (metadata doc) ''title'' [])) =
                    lower (strip challenge_name)) docs"
  by (simp add: title_matches_def [abs_def])

lemma search_then_extract_events:
  assumes "extract_relevant_info env (log_event w ev) docs q dbg = (res, w2)"
  shows "\<exists>evs. new_events w w2 = ev # evs \<and>
               invocations evs = map (extraction_messages q) docs \<and> rendered evs = []"
proof -
  from extract_relevant_info_trace [OF assms] obtain evs where
    t: "trace w2 = trace (log_event w ev) @ evs" and
    i: "invocations evs = map (extraction_messages q) docs" and r: "rendered evs = []"
    by blast
  from t have "new_events w w2 = ev # evs"
    by (simp add: new_events_def trace_log_event)
  with i r show ?thesis by blast
qed

text \<open>
  Claim C3: the orchestrator first searches the store for the challenge name with
  \<open>k = 6\<close>, and keeps exactly the results whose title, trimmed and lowercased, equals the
  trimmed and lowercased challenge name. The model calls of the run are the extraction
  calls of the kept documents, in order, and after them at most the one generation call on
  the text extracted from the kept documents: no other result reaches the model. When
  nothing is kept, the result is the no-exact-match message naming the challenge, the run
  ends with the search, and the chat model is not called at all. When something is kept,
  the result and the final world are those of the extraction over the kept documents,
  followed by the short circuit or the generation call.
\<close>

theorem exact_title_filter:
  assumes search: "similarity_search env (trace w) vectorstore challenge_name 6 = Inr docs"
    and kept: "kept = filter (\<lambda>doc. lower (strip (dict_get (metadata doc) ''title'' [])) =
                                     lower (strip challenge_name)) docs"
    and extraction:
      "extract_relevant_info env (log_event w (SimilaritySearch challenge_name 6)) kept
         challenge_name False = ((used_sources, combined_text), w2)"
    and run: "generate_cold_email env w challenge_name company_name vectorstore = (result, w')"
  shows "take 1 (new_events w w') = [SimilaritySearch challenge_name 6] \<and>
         invocations (new_events w w') =
           (if kept = [] then []
            else map (extraction_messages challenge_name) kept @
                 (if strip combined_text = [] then []
                  else [email_prompt combined_text company_name])) \<and>
         (kept = [] \<longrightarrow>
            result = Inr (''Geen exacte match gevonden voor '' @ [CHR 0x27] @ challenge_name @
                          [CHR 0x27] @ ''.'') \<and>
            w' = log_event w (SimilaritySearch challenge_name 6)) \<and>
         (kept \<noteq> [] \<longrightarrow>
            result =
              (if strip combined_text = []
               then Inr ''Geen relevante informatie gevonden voor deze uitdaging.''
               else (case chat_invoke env (trace w2) (email_prompt combined_text company_name) of
                       Inl e \<Rightarrow> Inl e
                     | Inr content \<Rightarrow> Inr (strip content))) \<and>
            w' =
              (if strip combined_text = [] then w2
               else log_event w2 (Invoke (email_prompt combined_text company_name))))"
proof -
  let ?ev = "SimilaritySearch challenge_name 6"
  let ?w1 = "log_event w ?ev"
  let ?prompt = "email_prompt combined_text company_name"
  have k: "kept = filter (title_matches challenge_name) docs"
    using kept by (simp add: title_matches_filter)
  have ex: "extract_relevant_info env ?w1 (filter (title_matches challenge_name) docs)
           challenge_name False = ((used_sources, combined_text), w2)"
    using extraction by (simp only: k)
  note unfold = generate_cold_email_unfold [OF search ex, of company_name]
  from search_then_extract_events [OF ex] obtain evs where
    ne: "new_events w w2 = ?ev # evs" and
    i: "invocations evs = map (extraction_messages challenge_name) kept"
    by (auto simp add: k)
  have t2: "trace w2 = trace w @ ?ev # evs"
    using extract_relevant_info_trace [OF ex] ne
    by (auto simp add: new_events_def trace_log_event)
  show ?thesis
  proof (cases "kept = []")
    case True
    with unfold run k have "result = Inr (no_match_message challenge_name)" and "w' = ?w1"
      by simp_all
    then show ?thesis
      using True by (simp add: new_events_def trace_log_event no_match_message_def)
  next
    case False
    show ?thesis
    proof (cases "strip combined_text = []")
      case True
      with unfold run k False have "w' = w2" and "result = Inr no_facts_message" by simp_all
      with ne i False True show ?thesis by (simp add: no_facts_message_def)
    next
      case nonempty: False
      with unfold run k False
      have w': "w' = log_event w2 (Invoke ?prompt)"
        and r: "result = (case chat_invoke env (trace w2) ?prompt of
                       Inl e \<Rightarrow> Inl e | Inr content \<Rightarrow> Inr (strip content))"
        by simp_all
      from w' have "new_events w w' = ?ev # evs @ [Invoke ?prompt]"
        using t2 by (simp add: new_events_def trace_log_event)
      with i False nonempty w' r show ?thesis by (simp add: invocations_append)
    qed
  qed
qed

text \<open>
  Two runs over a search result of two documents: for \<open>Unknown Challenge\<close> no title
  matches; for \<open>Smart Logistics\<close> one title matches and the other document never
  reaches the model.
\<close>

theorem exact_title_filter_witness:
  "filter (\<lambda>doc. lower (strip (dict_get (metadata doc) ''title'' [])) =
                  lower (strip ''Unknown Challenge'')) [doc_a, doc_d] = [] \<and>
   generate_cold_email (sample_env sample_chat (Inr ()) (Inr [doc_a, doc_d])) empty_world
       ''Unknown Challenge'' ''Acme BV'' () =
     (Inr (''Geen exacte match gevonden voor '' @ [CHR 0x27] @ ''Unknown Challenge'' @
           [CHR 0x27] @ ''.''),
      log_event empty_world (SimilaritySearch ''Unknown Challenge'' 6)) \<and>
   invocations (new_events empty_world
                  (log_event empty_world (SimilaritySearch ''Unknown Challenge'' 6))) = [] \<and>
   filter (\<lambda>doc. lower (strip (dict_get (metadata doc) ''title'' [])) =
                  lower (strip ''Smart Logistics'')) [doc_a, doc_d] = [doc_a] \<and>
   fst (generate_cold_email (sample_env sample_chat (Inr ()) (Inr [doc_a, doc_d])) empty_world
          ''Smart Logistics'' ''Acme BV'' ()) = Inr ''Dear Acme BV,\<newline>Join us.'' \<and>
   invocations (new_events empty_world
       (snd (generate_cold_email (sample_env sample_chat (Inr ()) (Inr [doc_a, doc_d]))
               empty_world ''Smart Logistics'' ''Acme BV'' ()))) =
     [extraction_messages ''Smart Logistics'' doc_a, email_prompt ''fact A'' ''Acme BV'']"
proof -
  let ?env = "sample_env sample_chat (Inr ()) (Inr [doc_a, doc_d])"
  let ?f = "\<lambda>q doc. lower (strip (dict_get (metadata doc) ''title'' [])) = lower (strip q)"
  \<comment> \<open>no title matches\<close>
  let ?u = "''Unknown Challenge''"
  let ?u1 = "log_event empty_world (SimilaritySearch ?u 6)"
  have search_u: "similarity_search ?env (trace empty_world) () ?u 6 = Inr [doc_a, doc_d]"
    by (simp add: sample_env_def)
  have kept_u: "[] = filter (?f ?u) [doc_a, doc_d]"
    by (simp add: sample_defs str_defs dict_get_def)
  have ex_u: "extract_relevant_info ?env ?u1 [] ?u False = (([], []), ?u1)"
    by (simp add: extract_relevant_info_def)
  have run_u: "generate_cold_email ?env empty_world ?u ''Acme BV'' () =
      (Inr (''Geen exacte match gevonden voor '' @ [CHR 0x27] @ ?u @ [CHR 0x27] @ ''.''), ?u1)"
    by (simp add: generate_cold_email_def title_matches_def no_match_message_def Let_def
          sample_defs str_defs dict_get_def)
  from exact_title_filter [OF search_u kept_u ex_u run_u]
  have a: "invocations (new_events empty_world ?u1) = []" by simp
  \<comment> \<open>one of the two results matches\<close>
  let ?q = "''Smart Logistics''"
  let ?w1 = "log_event empty_world (SimilaritySearch ?q 6)"
  let ?w2 = "log_event ?w1 (Invoke (extraction_messages ?q doc_a))"
  let ?r = "generate_cold_email ?env empty_world ?q ''Acme BV'' ()"
  have search_q: "similarity_search ?env (trace empty_world) () ?q 6 = Inr [doc_a, doc_d]"
    by (simp add: sample_env_def)
  have kept_q: "[doc_a] = filter (?f ?q) [doc_a, doc_d]"
    by (simp add: sample_defs str_defs dict_get_def)
  have ex_q: "extract_relevant_info ?env ?w1 [doc_a] ?q False =
      (([\<lparr>title = ''Smart Logistics'', url = ''u1'', extracted_facts = ''fact A''\<rparr>],
        ''fact A''), ?w2)"
    by (simp add: sample_defs str_defs extract_relevant_info_def invoke_def log_event_def
          extraction_messages_def has_relevant_facts_def dict_get_def Let_def)
  have run_q: "?r = (fst ?r, snd ?r)" by simp
  have nonblank: "strip ''fact A'' \<noteq> []" by (simp add: str_defs)
  have answer: "chat_invoke ?env (trace ?w2) (email_prompt ''fact A'' ''Acme BV'') =
      Inr ''Dear Acme BV,\<newline>Join us. ''"
    by (simp add: sample_env_def sample_chat_def email_prompt_def)
  have trimmed: "strip ''Dear Acme BV,\<newline>Join us. '' = ''Dear Acme BV,\<newline>Join us.''"
    by (simp add: str_defs)
  note matched = exact_title_filter [OF search_q kept_q ex_q run_q]
  from matched [THEN conjunct2, THEN conjunct2, THEN conjunct2] nonblank answer trimmed
  have b: "fst ?r = Inr ''Dear Acme BV,\<newline>Join us.''"
    by simp
  from matched [THEN conjunct2, THEN conjunct1] nonblank
  have c: "invocations (new_events empty_world (snd ?r)) =
      [extraction_messages ?q doc_a, email_prompt ''fact A'' ''Acme BV'']"
    by simp
  from kept_u [symmetric] run_u a kept_q [symmetric] b c show ?thesis by simp
qed

text \<open>
  Claim C5: when the combined text of the extraction stage is empty after trimming, the
  orchestrator returns the generic no-useful-facts message; the only model calls of the run
  are the extraction calls of the kept documents, and the generation prompt is not among
  them.
\<close>

theorem no_facts_short_circuit:
  assumes search: "similarity_search env (trace w) vectorstore challenge_name 6 = Inr docs"
    and kept: "filter (\<lambda>doc. lower (strip (dict_get (metadata doc) ''title'' [])) =
                              lower (strip challenge_name)) docs \<noteq> []"
    and extraction:
      "extract_relevant_info env (log_event w (SimilaritySearch challenge_name 6))
         (filter (\<lambda>doc. lower (strip (dict_get (metadata doc) ''title'' [])) =
                         lower (strip challenge_name)) docs)
         challenge_name False = ((used_sources, combined_text), w2)"
    and empty: "strip combined_text = []"
  shows "generate_cold_email env w challenge_name company_name vectorstore =
           (Inr ''Geen relevante informatie gevonden voor deze uitdaging.'', w2) \<and>
         invocations (new_events w w2) =
           map (extraction_messages challenge_name)
             (filter (\<lambda>doc. lower (strip (dict_get (metadata doc) ''title'' [])) =
                             lower (strip challenge_name)) docs) \<and>
         email_prompt combined_text company_name \<notin> set (invocations (new_events w w2))"
proof -
  let ?kept = "filter (title_matches challenge_name) docs"
  have ex: "extract_relevant_info env (log_event w (SimilaritySearch challenge_name 6)) ?kept
              challenge_name False = ((used_sources, combined_text), w2)"
    using extraction by (simp only: title_matches_filter)
  have res: "generate_cold_email env w challenge_name company_name vectorstore =
      (Inr no_facts_message, w2)"
    using generate_cold_email_unfold [OF search ex] kept empty
    by (simp add: title_matches_filter)
  from search_then_extract_events [OF ex] obtain evs where
    "new_events w w2 = SimilaritySearch challenge_name 6 # evs" and
    "invocations evs = map (extraction_messages challenge_name) ?kept"
    by blast
  then have inv: "invocations (new_events w w2) = map (extraction_messages challenge_name) ?kept"
    by simp
  have "email_prompt combined_text company_name \<notin> set (invocations (new_events w w2))"
    by (auto simp add: inv extraction_messages_def email_prompt_def)
  with res inv show ?thesis by (simp add: title_matches_filter no_facts_message_def)
qed

text \<open>
  Two documents match the title; the call for one fails and the other answers with the
  empty-list literal, so that nothing useful is extracted.
\<close>

theorem no_facts_short_circuit_witness:
  "filter (\<lambda>doc. lower (strip (dict_get (metadata doc) ''title'' [])) =
                  lower (strip ''Smart Logistics'')) [doc_b, doc_c, doc_d] = [doc_b, doc_c] \<and>
   strip (snd (fst (extract_relevant_info
                      (sample_env sample_chat (Inr ()) (Inr [doc_b, doc_c, doc_d]))
                      (log_event empty_world (SimilaritySearch ''Smart Logistics'' 6))
                      [doc_b, doc_c] ''Smart Logistics'' False))) = [] \<and>
   fst (generate_cold_email (sample_env sample_chat (Inr ()) (Inr [doc_b, doc_c, doc_d]))
          empty_world ''Smart Logistics'' ''Acme BV'' ()) =
     Inr ''Geen relevante informatie gevonden voor deze uitdaging.'' \<and>
   invocations (new_events empty_world
       (snd (generate_cold_email (sample_env sample_chat (Inr ()) (Inr [doc_b, doc_c, doc_d]))
               empty_world ''Smart Logistics'' ''Acme BV'' ()))) =
     [extraction_messages ''Smart Logistics'' doc_b, extraction_messages ''Smart Logistics'' doc_c]"
proof -
  let ?env = "sample_env sample_chat (Inr ()) (Inr [doc_b, doc_c, doc_d])"
  let ?q = "''Smart Logistics''"
  let ?w1 = "log_event empty_world (SimilaritySearch ?q 6)"
  let ?w2 = "log_event
               (log_event
                  (log_event ?w1 (Invoke (extraction_messages ?q doc_b)))
                  (Print (''[!] Extraction failed: '' @ ''timeout'')))
               (Invoke (extraction_messages ?q doc_c))"
  let ?f = "\<lambda>doc. lower (strip (dict_get (metadata doc) ''title'' [])) = lower (strip ?q)"
  have search: "similarity_search ?env (trace empty_world) () ?q 6 = Inr [doc_b, doc_c, doc_d]"
    by (simp add: sample_env_def)
  have kept: "filter ?f [doc_b, doc_c, doc_d] = [doc_b, doc_c]"
    by (simp add: sample_defs str_defs dict_get_def)
  have ex0: "extract_relevant_info ?env ?w1 [doc_b, doc_c] ?q False = (([], []), ?w2)"
    by (simp add: sample_defs str_defs extract_relevant_info_def invoke_def log_event_def
          extraction_messages_def has_relevant_facts_def dict_get_def Let_def)
  have ne: "filter ?f [doc_b, doc_c, doc_d] \<noteq> []" by (simp only: kept) simp
  have ex: "extract_relevant_info ?env ?w1 (filter ?f [doc_b, doc_c, doc_d]) ?q False =
      (([], []), ?w2)"
    by (simp only: kept ex0)
  have empty: "strip [] = []" by (simp add: strip_def)
  from no_facts_short_circuit [OF search ne ex empty, of "''Acme BV''"] kept ex0 empty
  show ?thesis by simp
qed

section \<open>The chunker\<close>

lemma append_chunks_eq:
  "append_chunks cs md (chunks, mds) = (chunks @ cs, mds @ replicate (length cs) md)"
  by (induction cs arbitrary: chunks mds) (simp_all add: replicate_app_Cons_same)

lemma chunk_loop_eq:
  "chunk_loop splitter rows (chunks, mds) =
     (chunks @ concat (map (\<lambda>(text, md). splitter text) rows),
      mds @ concat (map (\<lambda>(text, md). replicate (length (splitter text)) md) rows))"
  by (induction rows arbitrary: chunks mds) (auto simp add: append_chunks_eq)

lemma zip_row_chunks:
  "zip (concat (map (\<lambda>(text, md). splitter text) rows))
       (concat (map (\<lambda>(text, md). replicate (length (splitter text)) md) rows)) =
   concat (map (\<lambda>(text, md). map (\<lambda>chunk. (chunk, md)) (splitter text)) rows)"
proof (induction rows)
  case Nil
  show ?case by simp
next
  case (Cons row rows)
  obtain t md where row: "row = (t, md)" by (cases row)
  have "zip (splitter t) (replicate (length (splitter t)) md) =
        map (\<lambda>chunk. (chunk, md)) (splitter t)"
    by (simp add: zip_replicate2)
  with Cons row show ?case by (simp add: zip_append)
qed

text \<open>
  Claim C7: the chunker returns as many metadata entries as chunks, and the chunk at each
  position is paired with the metadata of the one row whose text it was split from,
  unchanged: the pairs are, row by row, the chunks of the row's text with the row's
  metadata.
\<close>

theorem chunk_metadata_is_row_metadata:
  assumes "get_text_chunks env texts_with_metadata = (chunks, metadatas)"
  shows "length metadatas = length chunks \<and>
         zip chunks metadatas =
           concat (map (\<lambda>(text, md). map (\<lambda>chunk. (chunk, md)) (split_text env text))
                     texts_with_metadata)"
proof -
  from assms have c: "chunks = concat (map (\<lambda>(text, md). split_text env text) texts_with_metadata)"
    and m: "metadatas = concat (map (\<lambda>(text, md). replicate (length (split_text env text)) md)
                                  texts_with_metadata)"
    by (simp_all add: get_text_chunks_def chunk_loop_eq)
  have "length metadatas = length chunks"
    unfolding c m by (induction texts_with_metadata) auto
  moreover have "zip chunks metadatas =
      concat (map (\<lambda>(text, md). map (\<lambda>chunk. (chunk, md)) (split_text env text))
                texts_with_metadata)"
    unfolding c m by (rule zip_row_chunks)
  ultimately show ?thesis by simp
qed

text \<open>Two rows, split into two chunks each.\<close>

theorem chunk_metadata_is_row_metadata_witness:
  "get_text_chunks (sample_env sample_chat (Inr ()) (Inr []))
       [(''abcdef'', [''title'' \<mapsto> ''T1'']), (''xy'', [''title'' \<mapsto> ''T2''])] =
     ([''abcd'', ''def'', ''xy'', ''''],
      [[''title'' \<mapsto> ''T1''], [''title'' \<mapsto> ''T1''],
       [''title'' \<mapsto> ''T2''], [''title'' \<mapsto> ''T2'']]) \<and>
   zip [''abcd'', ''def'', ''xy'', '''']
       [[''title'' \<mapsto> ''T1''], [''title'' \<mapsto> ''T1''],
        [''title'' \<mapsto> ''T2''], [''title'' \<mapsto> ''T2'']] =
     concat (map (\<lambda>(text, md). map (\<lambda>chunk. (chunk, md))
                    (split_text (sample_env sample_chat (Inr ()) (Inr [])) text))
               [(''abcdef'', [''title'' \<mapsto> ''T1'']), (''xy'', [''title'' \<mapsto> ''T2''])])"
proof -
  have run: "get_text_chunks (sample_env sample_chat (Inr ()) (Inr []))
       [(''abcdef'', [''title'' \<mapsto> ''T1'']), (''xy'', [''title'' \<mapsto> ''T2''])] =
     ([''abcd'', ''def'', ''xy'', ''''],
      [[''title'' \<mapsto> ''T1''], [''title'' \<mapsto> ''T1''],
       [''title'' \<mapsto> ''T2''], [''title'' \<mapsto> ''T2'']])"
    by (simp add: get_text_chunks_def sample_env_def)
  from chunk_metadata_is_row_metadata [OF run] have
    "zip [''abcd'', ''def'', ''xy'', '''']
       [[''title'' \<mapsto> ''T1''], [''title'' \<mapsto> ''T1''],
        [''title'' \<mapsto> ''T2''], [''title'' \<mapsto> ''T2'']] =
     concat (map (\<lambda>(text, md). map (\<lambda>chunk. (chunk, md))
                    (split_text (sample_env sample_chat (Inr ()) (Inr [])) text))
               [(''abcdef'', [''title'' \<mapsto> ''T1'']), (''xy'', [''title'' \<mapsto> ''T2''])])"
    by (rule conjunct2)
  with run show ?thesis by (rule conjI)
qed

section \<open>The fingerprint\<close>

lemma length_hexdigest: "length (hexdigest d) = 32"
  by (simp add: hexdigest_def)

lemma hexdigest_example: "hexdigest 0xd41d8cd98f00b204e9800998ecf8427e = ''d41d8cd98f00b204e9800998ecf8427e''"
  by code_simp

text \<open>
  Claim C8: the fingerprint is a function of the bytes of the file alone. Whatever the path,
  the other files and the history, two files with the same bytes have the same
  fingerprint, a string of 32 characters.
\<close>

theorem get_excel_hash_deterministic:
  assumes "files w1 path1 = Some bytes" and "files w2 path2 = Some bytes"
  shows "get_excel_hash env w1 path1 = get_excel_hash env w2 path2 \<and>
         (\<exists>fingerprint. get_excel_hash env w1 path1 = Inr fingerprint \<and> length fingerprint = 32)"
  using assms by (simp add: get_excel_hash_def length_hexdigest)

text \<open>The same bytes under two paths in two worlds.\<close>

theorem get_excel_hash_deterministic_witness:
  "files sheet_world ''MKB-challenge-data.xlsx'' = Some ''rows'' \<and>
   files \<lparr>files = [''/tmp/upload.xlsx'' \<mapsto> ''rows''], trace = [StTitle page_title]\<rparr>
     ''/tmp/upload.xlsx'' = Some ''rows'' \<and>
   get_excel_hash (sample_env sample_chat (Inr ()) (Inr [])) sheet_world ''MKB-challenge-data.xlsx'' =
     get_excel_hash (sample_env sample_chat (Inr ()) (Inr []))
       \<lparr>files = [''/tmp/upload.xlsx'' \<mapsto> ''rows''], trace = [StTitle page_title]\<rparr>
       ''/tmp/upload.xlsx'' \<and>
   get_excel_hash (sample_env sample_chat (Inr ()) (Inr [])) sheet_world ''MKB-challenge-data.xlsx'' =
     Inr ''00000000000000000000000000000004''"
proof -
  let ?w2 = "\<lparr>files = [''/tmp/upload.xlsx'' \<mapsto> ''rows''], trace = [StTitle page_title]\<rparr>"
  have f1: "files sheet_world ''MKB-challenge-data.xlsx'' = Some ''rows''"
    by (simp add: sheet_world_def)
  have f2: "files ?w2 ''/tmp/upload.xlsx'' = Some ''rows''" by simp
  have h: "hexdigest (of_nat (length ''rows'')) = ''00000000000000000000000000000004''"
    by code_simp
  have v: "get_excel_hash (sample_env sample_chat (Inr ()) (Inr [])) sheet_world
      ''MKB-challenge-data.xlsx'' = Inr ''00000000000000000000000000000004''"
    using h by (simp add: get_excel_hash_def sheet_world_def sample_env_def)
  from get_excel_hash_deterministic [OF f1 f2, of "sample_env sample_chat (Inr ()) (Inr [])"] f1 f2 v
  show ?thesis by simp
qed

section \<open>Load or rebuild\<close>

lemma store_paths:
  "store_folder = ''./vstore/mkb_challenge_store''"
  "hash_path = ''./vstore/mkb_challenge_store/hash.txt''"
  "vectorstore_path = ''./vstore/mkb_challenge_store/index.faiss''"
  "path_join [''./vstore/mkb_challenge_store'', ''index.faiss''] =
     ''./vstore/mkb_challenge_store/index.faiss''"
  "path_join [''./vstore/mkb_challenge_store'', ''index.pkl''] =
     ''./vstore/mkb_challenge_store/index.pkl''"
  by (simp_all add: store_folder_def hash_path_def vectorstore_path_def path_join_def
        EMBEDDINGS_DIRECTORY_def VECTORSTORE_NAME_def)

lemma create_vectorstore_from_texts_fails:
  assumes "from_texts env (trace w) texts mds = Inl e"
  shows "create_vectorstore env w texts mds = (Inl e, log_event w (FromTexts texts mds))"
  using assms by (simp add: create_vectorstore_def Let_def)

lemma create_vectorstore_save_fails:
  assumes "from_texts env (trace w) texts mds = Inr vs"
    and "save_local env (trace (log_event w (FromTexts texts mds))) vs = Inl (e, partial)"
  shows "create_vectorstore env w texts mds =
     (Inl e,
      (case partial of
         None \<Rightarrow> log_event (log_event w (FromTexts texts mds)) (SaveLocal store_folder)
       | Some faiss \<Rightarrow>
           (log_event (log_event w (FromTexts texts mds)) (SaveLocal store_folder))
             \<lparr>files := (files w)(vectorstore_path \<mapsto> faiss)\<rparr>))"
  using assms
  by (cases partial) (simp_all add: create_vectorstore_def Let_def store_paths files_log_event)

lemma create_vectorstore_succeeds:
  assumes "from_texts env (trace w) texts mds = Inr vs"
    and "save_local env (trace (log_event w (FromTexts texts mds))) vs = Inr (faiss, pkl)"
  shows "create_vectorstore env w texts mds =
     (Inr vs,
      (log_event (log_event w (FromTexts texts mds)) (SaveLocal store_folder))
        \<lparr>files := (files w)(vectorstore_path \<mapsto> faiss,
                             ''./vstore/mkb_challenge_store/index.pkl'' \<mapsto> pkl)\<rparr>)"
  using assms
  by (simp add: create_vectorstore_def Let_def store_paths files_log_event)

lemma create_vectorstore_effect:
  assumes "create_vectorstore env w texts mds = (r, w2)"
  shows "files w2 hash_path = files w hash_path \<and>
         (trace w2 = trace w @ [FromTexts texts mds] \<and> files w2 = files w \<and> (\<exists>e. r = Inl e) \<or>
          trace w2 = trace w @ [FromTexts texts mds, SaveLocal store_folder] \<and>
            ((\<exists>e. r = Inl e) \<or> (\<exists>vs. r = Inr vs) \<and> files w2 vectorstore_path \<noteq> None))"
proof (cases "from_texts env (trace w) texts mds")
  case (Inl e)
  from create_vectorstore_from_texts_fails [OF Inl] assms
  have "r = Inl e" and "w2 = log_event w (FromTexts texts mds)" by simp_all
  then show ?thesis by (simp add: trace_log_event files_log_event)
next
  case (Inr vs)
  show ?thesis
  proof (cases "save_local env (trace (log_event w (FromTexts texts mds))) vs")
    case (Inl failure)
    obtain e partial where "failure = (e, partial)" by (cases failure)
    with Inl have sv: "save_local env (trace (log_event w (FromTexts texts mds))) vs = Inl (e, partial)"
      by simp
    from create_vectorstore_save_fails [OF Inr sv] assms
    have "r = Inl e" and
      "w2 = (case partial of
         None \<Rightarrow> log_event (log_event w (FromTexts texts mds)) (SaveLocal store_folder)
       | Some faiss \<Rightarrow>
           (log_event (log_event w (FromTexts texts mds)) (SaveLocal store_folder))
             \<lparr>files := (files w)(vectorstore_path \<mapsto> faiss)\<rparr>)"
      by simp_all
    then show ?thesis
      by (cases partial) (simp_all add: trace_log_event files_log_event store_paths)
  next
    case saved: (Inr written)
    obtain faiss pkl where "written = (faiss, pkl)" by (cases written)
    with saved have sv: "save_local env (trace (log_event w (FromTexts texts mds))) vs = Inr (faiss, pkl)"
      by simp
    from create_vectorstore_succeeds [OF Inr sv] assms
    have "r = Inr vs" and
      "w2 = (log_event (log_event w (FromTexts texts mds)) (SaveLocal store_folder))
        \<lparr>files := (files w)(vectorstore_path \<mapsto> faiss,
                             ''./vstore/mkb_challenge_store/index.pkl'' \<mapsto> pkl)\<rparr>"
      by simp_all
    then show ?thesis
      by (simp add: trace_log_event files_log_event store_paths)
  qed
qed

lemma load_or_create_missing:
  assumes "files w excel_path = None"
  shows "load_or_create_vectorstore env w excel_path =
           (Inl (file_not_found excel_path), w)"
  using assms by (simp add: load_or_create_vectorstore_def get_excel_hash_def)

lemma load_or_create_fresh:
  assumes "files w excel_path = Some bytes"
    and "\<not> isStale (hexdigest (md5 env bytes)) (stored_hash w) (files w vectorstore_path \<noteq> None)"
  shows "load_or_create_vectorstore env w excel_path = load_vectorstore env w"
  using assms by (auto simp add: load_or_create_vectorstore_def get_excel_hash_def isStale_def)

lemma load_or_create_stale:
  assumes "files w excel_path = Some bytes"
    and "isStale (hexdigest (md5 env bytes)) (stored_hash w) (files w vectorstore_path \<noteq> None)"
  shows "load_or_create_vectorstore env w excel_path =
     (case read_excel env bytes of
        Inl e \<Rightarrow> (Inl e, log_event w (ReadExcel excel_path))
      | Inr df0 \<Rightarrow>
          (case create_vectorstore env (log_event w (ReadExcel excel_path))
                  (fst (get_text_chunks env (map row_text_with_metadata (fillna [] df0))))
                  (snd (get_text_chunks env (map row_text_with_metadata (fillna [] df0)))) of
             (Inl e, w2) \<Rightarrow> (Inl e, w2)
           | (Inr vectorstore, w2) \<Rightarrow>
               (Inr vectorstore, w2\<lparr>files := (files w2)(hash_path \<mapsto> hexdigest (md5 env bytes))\<rparr>)))"
  using assms
  by (auto simp add: load_or_create_vectorstore_def get_excel_hash_def isStale_def Let_def
        split: sum.splits prod.splits)

lemma load_vectorstore_effect:
  assumes "load_vectorstore env w = (r, w')"
  shows "new_events w w' = [LoadLocal store_folder] \<and> files w' = files w"
  using assms by (auto simp add: load_vectorstore_def new_events_def log_event_def)

lemma load_or_create_rebuild:
  assumes sheet: "files w excel_path = Some bytes"
    and stale: "isStale (hexdigest (md5 env bytes)) (stored_hash w) (files w vectorstore_path \<noteq> None)"
    and run: "load_or_create_vectorstore env w excel_path = (r, w')"
  shows "take 1 (new_events w w') = [ReadExcel excel_path] \<and>
         ((\<exists>e. r = Inl e) \<and> files w' hash_path = files w hash_path \<and>
            (SaveLocal store_folder \<notin> set (new_events w w') \<longrightarrow> files w' = files w) \<or>
          (\<exists>vs. r = Inr vs) \<and> SaveLocal store_folder \<in> set (new_events w w') \<and>
            files w' hash_path = Some (hexdigest (md5 env bytes)) \<and>
            files w' vectorstore_path \<noteq> None)"
proof (cases "read_excel env bytes")
  case (Inl e)
  with load_or_create_stale [OF sheet stale] run
  have "r = Inl e" and "w' = log_event w (ReadExcel excel_path)" by simp_all
  then show ?thesis by (simp add: new_events_def trace_log_event files_log_event)
next
  case (Inr df0)
  let ?w1 = "log_event w (ReadExcel excel_path)"
  let ?c = "fst (get_text_chunks env (map row_text_with_metadata (fillna [] df0)))"
  let ?m = "snd (get_text_chunks env (map row_text_with_metadata (fillna [] df0)))"
  obtain r2 w2 where cv: "create_vectorstore env ?w1 ?c ?m = (r2, w2)"
    by (cases "create_vectorstore env ?w1 ?c ?m")
  from create_vectorstore_effect [OF cv]
  have h2: "files w2 hash_path = files w hash_path"
    and t2: "trace w2 = trace w @ [ReadExcel excel_path, FromTexts ?c ?m] \<and> files w2 = files w \<and>
               (\<exists>e. r2 = Inl e) \<or>
             trace w2 = trace w @ [ReadExcel excel_path, FromTexts ?c ?m, SaveLocal store_folder] \<and>
               ((\<exists>e. r2 = Inl e) \<or> (\<exists>vs. r2 = Inr vs) \<and> files w2 vectorstore_path \<noteq> None)"
    by (simp_all add: trace_log_event files_log_event)
  show ?thesis
  proof (cases r2)
    case (Inl e)
    with load_or_create_stale [OF sheet stale] run Inr cv
    have "r = Inl e" and "w' = w2" by simp_all
    with h2 t2 Inl show ?thesis by (auto simp add: new_events_def)
  next
    case built: (Inr vs)
    with load_or_create_stale [OF sheet stale] run Inr cv
    have "r = Inr vs"
      and "w' = w2\<lparr>files := (files w2)(hash_path \<mapsto> hexdigest (md5 env bytes))\<rparr>"
      by simp_all
    with h2 t2 built show ?thesis by (auto simp add: new_events_def store_paths)
  qed
qed

lemma sample_fingerprint:
  "hexdigest (md5 (sample_env chat built found) ''rows'') = ''00000000000000000000000000000004''"
proof -
  have "hexdigest (of_nat (length ''rows'')) = ''00000000000000000000000000000004''"
    by code_simp
  then show ?thesis by (simp add: sample_env_def)
qed

lemma load_or_create_rebuild_outcome:
  assumes sheet: "files w excel_path = Some bytes"
    and stale: "isStale (hexdigest (md5 env bytes)) (stored_hash w) (files w vectorstore_path \<noteq> None)"
    and rx: "read_excel env bytes = Inr df0"
    and ch: "get_text_chunks env (map row_text_with_metadata (fillna [] df0)) = (chunks, metadatas)"
  shows "load_or_create_vectorstore env w excel_path =
     (case create_vectorstore env (log_event w (ReadExcel excel_path)) chunks metadatas of
        (Inl e, w2) \<Rightarrow> (Inl e, w2)
      | (Inr vectorstore, w2) \<Rightarrow>
          (Inr vectorstore, w2\<lparr>files := (files w2)(hash_path \<mapsto> hexdigest (md5 env bytes))\<rparr>))"
  using load_or_create_stale [OF sheet stale] rx ch by simp

text \<open>
  Claim C1: for a sheet that can be read, load-or-rebuild rebuilds exactly when the index
  is stale in the sense of the specification: the index artifact is missing, or the stored
  fingerprint is absent or differs from the fingerprint of the sheet's bytes; in
  particular a missing index artifact makes the index stale whatever the fingerprints.
  When the index is not stale, the one step is loading the stored index, and its answer is
  the result. When it is stale, the sheet is read, its rows are chunked, the index is built
  from these chunks and persisted: if all succeed, the result is the built store and the
  world holds the index artifacts and the current fingerprint; if a step raises, the run
  raises there, with the world as that step left it.
\<close>

theorem rebuild_iff_stale:
  assumes sheet: "files w excel_path = Some bytes"
    and run: "load_or_create_vectorstore env w excel_path = (result, w')"
    and fingerprint: "fingerprint = hexdigest (md5 env bytes)"
    and stale: "stale = isStale fingerprint (stored_hash w) (files w vectorstore_path \<noteq> None)"
  shows
    "get_excel_hash env w excel_path = Inr fingerprint \<and>
     (take 1 (new_events w w') = [ReadExcel excel_path]) = stale \<and>
     (new_events w w' = [LoadLocal store_folder]) = (\<not> stale) \<and>
     (files w vectorstore_path = None \<longrightarrow> stale) \<and>
     (\<not> stale \<longrightarrow>
        result = load_local env (trace w) (files w vectorstore_path)
                   (files w (path_join [store_folder, ''index.pkl''])) \<and>
        w' = log_event w (LoadLocal store_folder)) \<and>
     (stale \<and> read_excel env bytes = Inl e1 \<longrightarrow>
        result = Inl e1 \<and> w' = log_event w (ReadExcel excel_path)) \<and>
     (stale \<and> read_excel env bytes = Inr df0 \<and>
      get_text_chunks env (map row_text_with_metadata (fillna [] df0)) = (chunks, metadatas) \<longrightarrow>
        take 2 (new_events w w') = [ReadExcel excel_path, FromTexts chunks metadatas] \<and>
        (from_texts env (trace w @ [ReadExcel excel_path]) chunks metadatas = Inl e2 \<longrightarrow>
           result = Inl e2 \<and>
           w' = log_event (log_event w (ReadExcel excel_path)) (FromTexts chunks metadatas)) \<and>
        (from_texts env (trace w @ [ReadExcel excel_path]) chunks metadatas = Inr vectorstore \<and>
         save_local env (trace w @ [ReadExcel excel_path, FromTexts chunks metadatas]) vectorstore =
           Inl (e3, partial) \<longrightarrow>
           result = Inl e3 \<and>
           w' = (log_event (log_event (log_event w (ReadExcel excel_path))
                              (FromTexts chunks metadatas)) (SaveLocal store_folder))
                  \<lparr>files := (case partial of
                               None \<Rightarrow> files w
                             | Some faiss \<Rightarrow> (files w)(vectorstore_path \<mapsto> faiss))\<rparr>) \<and>
        (from_texts env (trace w @ [ReadExcel excel_path]) chunks metadatas = Inr vectorstore \<and>
         save_local env (trace w @ [ReadExcel excel_path, FromTexts chunks metadatas]) vectorstore =
           Inr (faiss, pkl) \<longrightarrow>
           result = Inr vectorstore \<and>
           w' = (log_event (log_event (log_event w (ReadExcel excel_path))
                              (FromTexts chunks metadatas)) (SaveLocal store_folder))
                  \<lparr>files := (files w)(vectorstore_path \<mapsto> faiss,
                                       path_join [store_folder, ''index.pkl''] \<mapsto> pkl,
                                       hash_path \<mapsto> fingerprint)\<rparr>))"
proof -
  let ?h = "hexdigest (md5 env bytes)"
  let ?s = "isStale ?h (stored_hash w) (files w vectorstore_path \<noteq> None)"
  let ?w1 = "log_event w (ReadExcel excel_path)"
  have c1: "get_excel_hash env w excel_path = Inr fingerprint"
    using sheet fingerprint by (simp add: get_excel_hash_def)
  have c4: "files w vectorstore_path = None \<longrightarrow> stale"
    using stale by (simp add: isStale_def)
  have c23: "(take 1 (new_events w w') = [ReadExcel excel_path]) = stale \<and>
     (new_events w w' = [LoadLocal store_folder]) = (\<not> stale)"
  proof (cases ?s)
    case True
    from load_or_create_rebuild [OF sheet True run]
    have "take 1 (new_events w w') = [ReadExcel excel_path]" by simp
    moreover from this have "new_events w w' \<noteq> [LoadLocal store_folder]" by auto
    ultimately show ?thesis using True stale fingerprint by simp
  next
    case False
    from load_or_create_fresh [OF sheet False] run
    have "load_vectorstore env w = (result, w')" by simp
    from load_vectorstore_effect [OF this]
    have "new_events w w' = [LoadLocal store_folder]" by simp
    then show ?thesis using False stale fingerprint by simp
  qed
  have c5: "\<not> stale \<longrightarrow>
        result = load_local env (trace w) (files w vectorstore_path)
                   (files w (path_join [store_folder, ''index.pkl''])) \<and>
        w' = log_event w (LoadLocal store_folder)"
  proof
    assume "\<not> stale"
    then have "\<not> ?s" using stale fingerprint by simp
    from load_or_create_fresh [OF sheet this] run
    show "result = load_local env (trace w) (files w vectorstore_path)
                   (files w (path_join [store_folder, ''index.pkl''])) \<and>
        w' = log_event w (LoadLocal store_folder)"
      by (auto simp add: load_vectorstore_def store_paths)
  qed
  have c6: "stale \<and> read_excel env bytes = Inl e1 \<longrightarrow>
        result = Inl e1 \<and> w' = log_event w (ReadExcel excel_path)"
  proof
    assume a: "stale \<and> read_excel env bytes = Inl e1"
    then have "?s" using stale fingerprint by simp
    from load_or_create_stale [OF sheet this] run a
    show "result = Inl e1 \<and> w' = log_event w (ReadExcel excel_path)" by simp
  qed
  have c7: "stale \<and> read_excel env bytes = Inr df0 \<and>
      get_text_chunks env (map row_text_with_metadata (fillna [] df0)) = (chunks, metadatas) \<longrightarrow>
        take 2 (new_events w w') = [ReadExcel excel_path, FromTexts chunks metadatas] \<and>
        (from_texts env (trace w @ [ReadExcel excel_path]) chunks metadatas = Inl e2 \<longrightarrow>
           result = Inl e2 \<and>
           w' = log_event (log_event w (ReadExcel excel_path)) (FromTexts chunks metadatas)) \<and>
        (from_texts env (trace w @ [ReadExcel excel_path]) chunks metadatas = Inr vectorstore \<and>
         save_local env (trace w @ [ReadExcel excel_path, FromTexts chunks metadatas]) vectorstore =
           Inl (e3, partial) \<longrightarrow>
           result = Inl e3 \<and>
           w' = (log_event (log_event (log_event w (ReadExcel excel_path))
                              (FromTexts chunks metadatas)) (SaveLocal store_folder))
                  \<lparr>files := (case partial of
                               None \<Rightarrow> files w
                             | Some faiss \<Rightarrow> (files w)(vectorstore_path \<mapsto> faiss))\<rparr>) \<and>
        (from_texts env (trace w @ [ReadExcel excel_path]) chunks metadatas = Inr vectorstore \<and>
         save_local env (trace w @ [ReadExcel excel_path, FromTexts chunks metadatas]) vectorstore =
           Inr (faiss, pkl) \<longrightarrow>
           result = Inr vectorstore \<and>
           w' = (log_event (log_event (log_event w (ReadExcel excel_path))
                              (FromTexts chunks metadatas)) (SaveLocal store_folder))
                  \<lparr>files := (files w)(vectorstore_path \<mapsto> faiss,
                                       path_join [store_folder, ''index.pkl''] \<mapsto> pkl,
                                       hash_path \<mapsto> fingerprint)\<rparr>)"
  proof (intro impI)
    assume a: "stale \<and> read_excel env bytes = Inr df0 \<and>
      get_text_chunks env (map row_text_with_metadata (fillna [] df0)) = (chunks, metadatas)"
    then have s: "?s" and rx: "read_excel env bytes = Inr df0"
      and ch: "get_text_chunks env (map row_text_with_metadata (fillna [] df0)) = (chunks, metadatas)"
      using stale fingerprint by simp_all
    note outcome = load_or_create_rebuild_outcome [OF sheet s rx ch]
    let ?w2 = "log_event ?w1 (FromTexts chunks metadatas)"
    let ?w3 = "log_event ?w2 (SaveLocal store_folder)"
    have t1: "trace ?w1 = trace w @ [ReadExcel excel_path]" by (rule trace_log_event)
    have t2: "trace ?w2 = trace w @ [ReadExcel excel_path, FromTexts chunks metadatas]"
      by (simp add: trace_log_event)
    obtain r2 v2 where cv: "create_vectorstore env ?w1 chunks metadatas = (r2, v2)"
      by (cases "create_vectorstore env ?w1 chunks metadatas")
    have tv: "trace w' = trace v2"
      using outcome run cv by (cases r2) auto
    from create_vectorstore_effect [OF cv]
    have "take 2 (drop (length (trace w)) (trace v2)) =
        [ReadExcel excel_path, FromTexts chunks metadatas]"
      by (auto simp add: trace_log_event)
    then have p1: "take 2 (new_events w w') = [ReadExcel excel_path, FromTexts chunks metadatas]"
      by (simp add: new_events_def tv)
    have p2: "from_texts env (trace w @ [ReadExcel excel_path]) chunks metadatas = Inl e2 \<longrightarrow>
           result = Inl e2 \<and> w' = ?w2"
    proof
      assume "from_texts env (trace w @ [ReadExcel excel_path]) chunks metadatas = Inl e2"
      then have "from_texts env (trace ?w1) chunks metadatas = Inl e2" by (simp only: t1)
      from create_vectorstore_from_texts_fails [OF this] outcome run
      show "result = Inl e2 \<and> w' = ?w2" by simp
    qed
    have p3: "from_texts env (trace w @ [ReadExcel excel_path]) chunks metadatas = Inr vectorstore \<and>
         save_local env (trace w @ [ReadExcel excel_path, FromTexts chunks metadatas]) vectorstore =
           Inl (e3, partial) \<longrightarrow>
           result = Inl e3 \<and>
           w' = ?w3\<lparr>files := (case partial of
                               None \<Rightarrow> files w
                             | Some faiss \<Rightarrow> (files w)(vectorstore_path \<mapsto> faiss))\<rparr>"
    proof
      assume b: "from_texts env (trace w @ [ReadExcel excel_path]) chunks metadatas = Inr vectorstore \<and>
         save_local env (trace w @ [ReadExcel excel_path, FromTexts chunks metadatas]) vectorstore =
           Inl (e3, partial)"
      then have ft: "from_texts env (trace ?w1) chunks metadatas = Inr vectorstore"
        and sv: "save_local env (trace ?w2) vectorstore = Inl (e3, partial)"
        by (simp_all only: t1 t2)
      from create_vectorstore_save_fails [OF ft sv] outcome run
      show "result = Inl e3 \<and>
           w' = ?w3\<lparr>files := (case partial of
                               None \<Rightarrow> files w
                             | Some faiss \<Rightarrow> (files w)(vectorstore_path \<mapsto> faiss))\<rparr>"
        by (cases partial) (auto simp add: files_log_event log_event_def)
    qed
    have p4: "from_texts env (trace w @ [ReadExcel excel_path]) chunks metadatas = Inr vectorstore \<and>
         save_local env (trace w @ [ReadExcel excel_path, FromTexts chunks metadatas]) vectorstore =
           Inr (faiss, pkl) \<longrightarrow>
           result = Inr vectorstore \<and>
           w' = ?w3\<lparr>files := (files w)(vectorstore_path \<mapsto> faiss,
                                       path_join [store_folder, ''index.pkl''] \<mapsto> pkl,
                                       hash_path \<mapsto> fingerprint)\<rparr>"
    proof
      assume b: "from_texts env (trace w @ [ReadExcel excel_path]) chunks metadatas = Inr vectorstore \<and>
         save_local env (trace w @ [ReadExcel excel_path, FromTexts chunks metadatas]) vectorstore =
           Inr (faiss, pkl)"
      then have ft: "from_texts env (trace ?w1) chunks metadatas = Inr vectorstore"
        and sv: "save_local env (trace ?w2) vectorstore = Inr (faiss, pkl)"
        by (simp_all only: t1 t2)
      from create_vectorstore_succeeds [OF ft sv] outcome run fingerprint
      show "result = Inr vectorstore \<and>
           w' = ?w3\<lparr>files := (files w)(vectorstore_path \<mapsto> faiss,
                                       path_join [store_folder, ''index.pkl''] \<mapsto> pkl,
                                       hash_path \<mapsto> fingerprint)\<rparr>"
        by (auto simp add: store_paths files_log_event)
    qed
    from p1 p2 p3 p4
    show "take 2 (new_events w w') = [ReadExcel excel_path, FromTexts chunks metadatas] \<and>
        (from_texts env (trace w @ [ReadExcel excel_path]) chunks metadatas = Inl e2 \<longrightarrow>
           result = Inl e2 \<and> w' = ?w2) \<and>
        (from_texts env (trace w @ [ReadExcel excel_path]) chunks metadatas = Inr vectorstore \<and>
         save_local env (trace w @ [ReadExcel excel_path, FromTexts chunks metadatas]) vectorstore =
           Inl (e3, partial) \<longrightarrow>
           result = Inl e3 \<and>
           w' = ?w3\<lparr>files := (case partial of
                               None \<Rightarrow> files w
                             | Some faiss \<Rightarrow> (files w)(vectorstore_path \<mapsto> faiss))\<rparr>) \<and>
        (from_texts env (trace w @ [ReadExcel excel_path]) chunks metadatas = Inr vectorstore \<and>
         save_local env (trace w @ [ReadExcel excel_path, FromTexts chunks metadatas]) vectorstore =
           Inr (faiss, pkl) \<longrightarrow>
           result = Inr vectorstore \<and>
           w' = ?w3\<lparr>files := (files w)(vectorstore_path \<mapsto> faiss,
                                       path_join [store_folder, ''index.pkl''] \<mapsto> pkl,
                                       hash_path \<mapsto> fingerprint)\<rparr>)"
      by (intro conjI)
  qed
  from c1 c23 c4 c5 c6 c7 show ?thesis by (intro conjI) (erule conjunct1 conjunct2 | assumption)+
qed

text \<open>
  A world where the fingerprints match and the index artifact is missing is rebuilt, and
  ends with the artifacts and the fingerprint on disk; a world with the artifact and the
  matching fingerprint (stored with a trailing newline) is loaded.
\<close>

theorem rebuild_iff_stale_witness:
  "files hash_only_world vectorstore_path = None \<and>
   stored_hash hash_only_world =
     Some (hexdigest (md5 (sample_env sample_chat (Inr ()) (Inr [])) ''rows'')) \<and>
   fst (load_or_create_vectorstore (sample_env sample_chat (Inr ()) (Inr []))
          hash_only_world ''MKB-challenge-data.xlsx'') = Inr () \<and>
   take 1 (new_events hash_only_world
             (snd (load_or_create_vectorstore (sample_env sample_chat (Inr ()) (Inr []))
                     hash_only_world ''MKB-challenge-data.xlsx''))) =
     [ReadExcel ''MKB-challenge-data.xlsx''] \<and>
   files (snd (load_or_create_vectorstore (sample_env sample_chat (Inr ()) (Inr []))
                 hash_only_world ''MKB-challenge-data.xlsx'')) =
     (files hash_only_world)
       (vectorstore_path \<mapsto> ''faiss'',
        path_join [store_folder, ''index.pkl''] \<mapsto> ''pkl'',
        hash_path \<mapsto> hexdigest (md5 (sample_env sample_chat (Inr ()) (Inr [])) ''rows'')) \<and>
   files indexed_world vectorstore_path = Some ''faiss'' \<and>
   stored_hash indexed_world =
     Some (hexdigest (md5 (sample_env sample_chat (Inr ()) (Inr [])) ''rows'')) \<and>
   load_or_create_vectorstore (sample_env sample_chat (Inr ()) (Inr []))
       indexed_world ''MKB-challenge-data.xlsx'' =
     (Inr (), log_event indexed_world (LoadLocal store_folder))"
proof -
  let ?env = "sample_env sample_chat (Inr ()) (Inr [])"
  let ?p = "''MKB-challenge-data.xlsx''"
  let ?h = "hexdigest (md5 ?env ''rows'')"
  let ?df = "[[(''Challenge Name'', Some ''Smart Logistics''), (''URL'', None)]]"
  let ?g = "get_text_chunks ?env (map row_text_with_metadata (fillna [] ?df))"
  \<comment> \<open>the fingerprints match and the index artifact is missing\<close>
  let ?r1 = "load_or_create_vectorstore ?env hash_only_world ?p"
  have s1: "files hash_only_world ?p = Some ''rows''" by (simp add: hash_only_world_def)
  have i1: "files hash_only_world vectorstore_path = None"
    by (simp add: hash_only_world_def store_paths)
  have h1: "stored_hash hash_only_world = Some ?h"
    by (simp add: sample_fingerprint stored_hash_def store_paths hash_only_world_def str_defs)
  have run1: "?r1 = (fst ?r1, snd ?r1)" by simp
  have stale1: "True = isStale ?h (stored_hash hash_only_world)
      (files hash_only_world vectorstore_path \<noteq> None)"
    using i1 by (simp add: isStale_def)
  have rx: "read_excel ?env ''rows'' = Inr ?df" by (simp add: sample_env_def)
  have ch: "?g = (fst ?g, snd ?g)" by simp
  have ft: "from_texts ?env (trace hash_only_world @ [ReadExcel ?p]) (fst ?g) (snd ?g) = Inr ()"
    by (simp add: sample_env_def)
  have sv: "save_local ?env (trace hash_only_world @ [ReadExcel ?p, FromTexts (fst ?g) (snd ?g)]) () =
      Inr (''faiss'', ''pkl'')"
    by (simp add: sample_env_def)
  note rebuilt = rebuild_iff_stale [OF s1 run1 refl stale1]
  from rebuilt have first: "take 1 (new_events hash_only_world (snd ?r1)) = [ReadExcel ?p]"
    by blast
  note built = rebuilt [THEN conjunct2, THEN conjunct2, THEN conjunct2, THEN conjunct2,
      THEN conjunct2, THEN conjunct2, THEN mp, OF conjI [OF TrueI conjI [OF rx ch]]]
  note saved = built [THEN conjunct2, THEN conjunct2, THEN conjunct2, THEN mp, OF conjI [OF ft sv]]
  from saved have res1: "fst ?r1 = Inr ()" by (rule conjunct1)
  from saved have "snd ?r1 =
      (log_event (log_event (log_event hash_only_world (ReadExcel ?p))
                    (FromTexts (fst ?g) (snd ?g))) (SaveLocal store_folder))
        \<lparr>files := (files hash_only_world)
           (vectorstore_path \<mapsto> ''faiss'', path_join [store_folder, ''index.pkl''] \<mapsto> ''pkl'',
            hash_path \<mapsto> ?h)\<rparr>"
    by (rule conjunct2)
  then have files1: "files (snd ?r1) =
      (files hash_only_world)
        (vectorstore_path \<mapsto> ''faiss'', path_join [store_folder, ''index.pkl''] \<mapsto> ''pkl'',
         hash_path \<mapsto> ?h)"
    by simp
  \<comment> \<open>the index artifact is there and the fingerprints match\<close>
  let ?r2 = "load_or_create_vectorstore ?env indexed_world ?p"
  have s2: "files indexed_world ?p = Some ''rows''" by (simp add: indexed_world_def)
  have i2: "files indexed_world vectorstore_path = Some ''faiss''"
    by (simp add: indexed_world_def store_paths)
  have h2: "stored_hash indexed_world = Some ?h"
    by (simp add: sample_fingerprint stored_hash_def store_paths indexed_world_def str_defs)
  have run2: "?r2 = (fst ?r2, snd ?r2)" by simp
  have fresh: "False = isStale ?h (stored_hash indexed_world)
      (files indexed_world vectorstore_path \<noteq> None)"
    using i2 h2 by (simp add: isStale_def)
  have ld: "load_local ?env (trace indexed_world) (files indexed_world vectorstore_path)
      (files indexed_world (path_join [store_folder, ''index.pkl''])) = Inr ()"
    by (simp add: sample_env_def i2)
  note loaded = rebuild_iff_stale [OF s2 run2 refl fresh, THEN conjunct2, THEN conjunct2,
      THEN conjunct2, THEN conjunct2, THEN conjunct1, THEN mp, OF notI, OF FalseE]
  from loaded ld have "fst ?r2 = Inr ()" and "snd ?r2 = log_event indexed_world (LoadLocal store_folder)"
    by simp_all
  then have res2: "?r2 = (Inr (), log_event indexed_world (LoadLocal store_folder))"
    by (simp add: prod_eq_iff)
  from i1 h1 res1 first files1 i2 h2 res2 show ?thesis by (intro conjI)
qed

text \<open>
  Claim C10: the fingerprint file changes only in a run that returns a vector store, after
  the build and the persist step, with the index artifact on disk; a run that raises
  leaves the stored fingerprint as it was. When the rebuild raises before the persist step
  (reading the sheet, embedding or building the index), no file is changed, and every later
  run that finds the sheet, the fingerprint file and the index artifact as they were left
  starts the rebuild again.
\<close>

theorem fingerprint_written_after_persist:
  assumes run: "load_or_create_vectorstore env w excel_path = (result, w')"
  shows "((\<exists>e. result = Inl e) \<longrightarrow> files w' hash_path = files w hash_path) \<and>
         (files w' hash_path \<noteq> files w hash_path \<longrightarrow>
            (\<exists>vectorstore. result = Inr vectorstore) \<and>
            SaveLocal store_folder \<in> set (new_events w w') \<and>
            files w' vectorstore_path \<noteq> None) \<and>
         ((\<exists>e. result = Inl e) \<and> ReadExcel excel_path \<in> set (new_events w w') \<and>
          SaveLocal store_folder \<notin> set (new_events w w') \<longrightarrow>
            files w' = files w \<and>
            (\<forall>later result2 w2.
               files later excel_path = files w' excel_path \<and>
               files later hash_path = files w' hash_path \<and>
               files later vectorstore_path = files w' vectorstore_path \<and>
               load_or_create_vectorstore env later excel_path = (result2, w2) \<longrightarrow>
               take 1 (new_events later w2) = [ReadExcel excel_path]))"
proof (cases "files w excel_path")
  case None
  from load_or_create_missing [OF None, of env] run
  have "w' = w" by simp
  then show ?thesis by (simp add: new_events_def)
next
  case (Some bytes)
  let ?stale = "\<lambda>v. isStale (hexdigest (md5 env bytes)) (stored_hash v) (files v vectorstore_path \<noteq> None)"
  show ?thesis
  proof (cases "?stale w")
    case False
    from load_or_create_fresh [OF Some False] run
    have "load_vectorstore env w = (result, w')" by simp
    from load_vectorstore_effect [OF this]
    show ?thesis by simp
  next
    case True
    note rb = load_or_create_rebuild [OF Some True run]
    have retry: "take 1 (new_events later w2) = [ReadExcel excel_path]"
      if same: "files w' = files w"
        and l1: "files later excel_path = files w' excel_path"
        and l2: "files later hash_path = files w' hash_path"
        and l3: "files later vectorstore_path = files w' vectorstore_path"
        and r2: "load_or_create_vectorstore env later excel_path = (result2, w2)"
      for later result2 w2
    proof -
      have sheet: "files later excel_path = Some bytes" using l1 same Some by simp
      have "stored_hash later = stored_hash w" using l2 same by (simp add: stored_hash_def)
      moreover have "files later vectorstore_path = files w vectorstore_path" using l3 same by simp
      ultimately have "?stale later" using True by simp
      from load_or_create_rebuild [OF sheet this r2] show ?thesis by simp
    qed
    from rb have c1: "(\<exists>e. result = Inl e) \<longrightarrow> files w' hash_path = files w hash_path"
      by auto
    from rb have c2: "files w' hash_path \<noteq> files w hash_path \<longrightarrow>
            (\<exists>vectorstore. result = Inr vectorstore) \<and>
            SaveLocal store_folder \<in> set (new_events w w') \<and>
            files w' vectorstore_path \<noteq> None"
      by auto
    from rb have c3: "(\<exists>e. result = Inl e) \<and> SaveLocal store_folder \<notin> set (new_events w w') \<longrightarrow>
        files w' = files w"
      by auto
    from c1 c2 c3 retry show ?thesis by blast
  qed
qed

text \<open>The embedding service is down: the build raises, and the next run rebuilds again.\<close>

theorem fingerprint_written_after_persist_witness:
  "fst (load_or_create_vectorstore (sample_env sample_chat (Inl ''embedding service down'') (Inr []))
          sheet_world ''MKB-challenge-data.xlsx'') = Inl ''embedding service down'' \<and>
   files (snd (load_or_create_vectorstore
                 (sample_env sample_chat (Inl ''embedding service down'') (Inr []))
                 sheet_world ''MKB-challenge-data.xlsx'')) = files sheet_world \<and>
   take 1 (new_events
             (snd (load_or_create_vectorstore
                     (sample_env sample_chat (Inl ''embedding service down'') (Inr []))
                     sheet_world ''MKB-challenge-data.xlsx''))
             (snd (load_or_create_vectorstore
                     (sample_env sample_chat (Inl ''embedding service down'') (Inr []))
                     (snd (load_or_create_vectorstore
                             (sample_env sample_chat (Inl ''embedding service down'') (Inr []))
                             sheet_world ''MKB-challenge-data.xlsx''))
                     ''MKB-challenge-data.xlsx''))) =
     [ReadExcel ''MKB-challenge-data.xlsx'']"
proof -
  let ?env = "sample_env sample_chat (Inl ''embedding service down'') (Inr [])"
  let ?p = "''MKB-challenge-data.xlsx''"
  let ?df = "[[(''Challenge Name'', Some ''Smart Logistics''), (''URL'', None)]]"
  let ?c = "fst (get_text_chunks ?env (map row_text_with_metadata (fillna [] ?df)))"
  let ?m = "snd (get_text_chunks ?env (map row_text_with_metadata (fillna [] ?df)))"
  let ?w' = "log_event (log_event sheet_world (ReadExcel ?p)) (FromTexts ?c ?m)"
  have sheet: "files sheet_world ?p = Some ''rows''" by (simp add: sheet_world_def)
  have stale: "isStale (hexdigest (md5 ?env ''rows'')) (stored_hash sheet_world)
      (files sheet_world vectorstore_path \<noteq> None)"
    by (simp add: isStale_def sheet_world_def store_paths)
  have rx: "read_excel ?env ''rows'' = Inr ?df" by (simp add: sample_env_def)
  have ft: "from_texts ?env (trace (log_event sheet_world (ReadExcel ?p))) ?c ?m =
      Inl ''embedding service down''"
    by (simp add: sample_env_def)
  have run: "load_or_create_vectorstore ?env sheet_world ?p = (Inl ''embedding service down'', ?w')"
    using load_or_create_stale [OF sheet stale] rx create_vectorstore_from_texts_fails [OF ft]
    by simp
  have ev: "new_events sheet_world ?w' = [ReadExcel ?p, FromTexts ?c ?m]"
    by (simp add: new_events_def trace_log_event sheet_world_def)
  have failed: "\<exists>e. (Inl ''embedding service down'' :: exn + unit) = Inl e" by simp
  have started: "ReadExcel ?p \<in> set (new_events sheet_world ?w')" by (simp only: ev) simp
  have unsaved: "SaveLocal store_folder \<notin> set (new_events sheet_world ?w')" by (simp only: ev) simp
  have again: "load_or_create_vectorstore ?env ?w' ?p =
      (fst (load_or_create_vectorstore ?env ?w' ?p), snd (load_or_create_vectorstore ?env ?w' ?p))"
    by simp
  from fingerprint_written_after_persist [OF run] failed started unsaved
  have same: "files ?w' = files sheet_world"
    and retry: "\<forall>later result2 w2.
               files later ?p = files ?w' ?p \<and>
               files later hash_path = files ?w' hash_path \<and>
               files later vectorstore_path = files ?w' vectorstore_path \<and>
               load_or_create_vectorstore ?env later ?p = (result2, w2) \<longrightarrow>
               take 1 (new_events later w2) = [ReadExcel ?p]"
    by blast+
  from retry again
  have "take 1 (new_events ?w' (snd (load_or_create_vectorstore ?env ?w' ?p))) = [ReadExcel ?p]"
    by blast
  with same show ?thesis by (simp only: run fst_conv snd_conv)
qed

section \<open>The boundary\<close>

lemma load_or_create_trace:
  assumes run: "load_or_create_vectorstore env w excel_path = (r, w')"
  shows "\<exists>evs. trace w' = trace w @ evs \<and> invocations evs = [] \<and> rendered evs = []"
proof (cases "files w excel_path")
  case None
  from load_or_create_missing [OF None, of env] run have "w' = w" by simp
  then show ?thesis by simp
next
  case (Some bytes)
  show ?thesis
  proof (cases "isStale (hexdigest (md5 env bytes)) (stored_hash w) (files w vectorstore_path \<noteq> None)")
    case False
    from load_or_create_fresh [OF Some False] run
    have "w' = log_event w (LoadLocal store_folder)" by (simp add: load_vectorstore_def)
    then have "trace w' = trace w @ [LoadLocal store_folder]" by (simp add: trace_log_event)
    then show ?thesis by simp
  next
    case True
    note unfold = load_or_create_stale [OF Some True]
    show ?thesis
    proof (cases "read_excel env bytes")
      case (Inl e)
      with unfold run have "w' = log_event w (ReadExcel excel_path)" by simp
      then have "trace w' = trace w @ [ReadExcel excel_path]" by (simp add: trace_log_event)
      then show ?thesis by simp
    next
      case (Inr df0)
      let ?w1 = "log_event w (ReadExcel excel_path)"
      let ?c = "fst (get_text_chunks env (map row_text_with_metadata (fillna [] df0)))"
      let ?m = "snd (get_text_chunks env (map row_text_with_metadata (fillna [] df0)))"
      obtain r2 w2 where cv: "create_vectorstore env ?w1 ?c ?m = (r2, w2)"
        by (cases "create_vectorstore env ?w1 ?c ?m")
      from create_vectorstore_effect [OF cv]
      have t2: "trace w2 = trace w @ [ReadExcel excel_path, FromTexts ?c ?m] \<or>
                trace w2 = trace w @ [ReadExcel excel_path, FromTexts ?c ?m, SaveLocal store_folder]"
        by (auto simp add: trace_log_event)
      have "trace w' = trace w2"
        using unfold run Inr cv by (cases r2) auto
      with t2 have "trace w' = trace w @ [ReadExcel excel_path, FromTexts ?c ?m] \<or>
                trace w' = trace w @ [ReadExcel excel_path, FromTexts ?c ?m, SaveLocal store_folder]"
        by simp
      then show ?thesis
      proof
        assume "trace w' = trace w @ [ReadExcel excel_path, FromTexts ?c ?m]"
        then show ?thesis by simp
      next
        assume "trace w' = trace w @ [ReadExcel excel_path, FromTexts ?c ?m, SaveLocal store_folder]"
        then show ?thesis by simp
      qed
    qed
  qed
qed

lemma main_load_fails:
  assumes "page_setup env w inp = (excel_path, w2)"
    and "button inp"
    and "parse_input (user_input inp) = (Some challenge_name, Some company_name)"
    and "challenge_name \<noteq> []" and "company_name \<noteq> []"
    and "load_or_create_vectorstore env w2 excel_path = (Inl e, w3)"
  shows "main env w inp = log_event w3 (StError (''Error loading resources: '' @ e))"
  using assms by (simp add: main_def)

lemma main_generation_fails:
  assumes "page_setup env w inp = (excel_path, w2)"
    and "button inp"
    and "parse_input (user_input inp) = (Some challenge_name, Some company_name)"
    and "challenge_name \<noteq> []" and "company_name \<noteq> []"
    and "load_or_create_vectorstore env w2 excel_path = (Inr vectorstore, w3)"
    and "chat_init env = None"
    and "generate_cold_email env w3 challenge_name company_name vectorstore = (Inl e, w4)"
  shows "main env w inp = log_event w4 (StError (''Email generation failed: '' @ e))"
  using assms by (simp add: main_def initialize_chat_models_def)

lemma main_rejects_empty_part:
  assumes "page_setup env w inp = (excel_path, w2)"
    and "button inp"
    and "parse_input (user_input inp) = (Some challenge_name, Some company_name)"
    and "challenge_name = [] \<or> company_name = []"
  shows "main env w inp = log_event w2 (StError format_error)"
  using assms by (auto simp add: main_def)

text \<open>
  Claim C9: for a well-formed input line, a raising embedding or build call during the
  index build, and a raising chat call of the generation stage, end the run: the
  orchestrator's function returns the exception and no string, nothing is drawn as an
  email after the page itself, and the last thing the page shows is the error message
  carrying the exception's text.
\<close>

theorem fatal_failure_shows_error:
  assumes page: "page_setup env w inp = (excel_path, w2)"
    and click: "button inp"
    and parsed: "parse_input (user_input inp) = (Some challenge_name, Some company_name)"
    and challenge: "challenge_name \<noteq> []" and company: "company_name \<noteq> []"
  shows
    "(files w2 excel_path = Some bytes \<and>
      isStale (hexdigest (md5 env bytes)) (stored_hash w2) (files w2 vectorstore_path \<noteq> None) \<and>
      read_excel env bytes = Inr df0 \<and>
      from_texts env (trace (log_event w2 (ReadExcel excel_path)))
        (fst (get_text_chunks env (map row_text_with_metadata (fillna [] df0))))
        (snd (get_text_chunks env (map row_text_with_metadata (fillna [] df0)))) = Inl e1 \<longrightarrow>
        fst (load_or_create_vectorstore env w2 excel_path) = Inl e1 \<and>
        rendered (new_events w2 (main env w inp)) = [] \<and>
        invocations (new_events w2 (main env w inp)) = [] \<and>
        last (trace (main env w inp)) = StError (''Error loading resources: '' @ e1)) \<and>
     (load_or_create_vectorstore env w2 excel_path = (Inr vectorstore, w3) \<and>
      chat_init env = None \<and>
      similarity_search env (trace w3) vectorstore challenge_name 6 = Inr docs \<and>
      filter (title_matches challenge_name) docs \<noteq> [] \<and>
      extract_relevant_info env (log_event w3 (SimilaritySearch challenge_name 6))
        (filter (title_matches challenge_name) docs) challenge_name False =
          ((used_sources, combined_text), w4) \<and>
      strip combined_text \<noteq> [] \<and>
      chat_invoke env (trace w4) (email_prompt combined_text company_name) = Inl e2 \<longrightarrow>
        fst (generate_cold_email env w3 challenge_name company_name vectorstore) = Inl e2 \<and>
        rendered (new_events w2 (main env w inp)) = [] \<and>
        last (trace (main env w inp)) = StError (''Email generation failed: '' @ e2))"
proof (intro conjI impI)
  assume a: "files w2 excel_path = Some bytes \<and>
      isStale (hexdigest (md5 env bytes)) (stored_hash w2) (files w2 vectorstore_path \<noteq> None) \<and>
      read_excel env bytes = Inr df0 \<and>
      from_texts env (trace (log_event w2 (ReadExcel excel_path)))
        (fst (get_text_chunks env (map row_text_with_metadata (fillna [] df0))))
        (snd (get_text_chunks env (map row_text_with_metadata (fillna [] df0)))) = Inl e1"
  let ?c = "fst (get_text_chunks env (map row_text_with_metadata (fillna [] df0)))"
  let ?m = "snd (get_text_chunks env (map row_text_with_metadata (fillna [] df0)))"
  let ?w3 = "log_event (log_event w2 (ReadExcel excel_path)) (FromTexts ?c ?m)"
  from a have sheet: "files w2 excel_path = Some bytes"
    and stale: "isStale (hexdigest (md5 env bytes)) (stored_hash w2) (files w2 vectorstore_path \<noteq> None)"
    and rx: "read_excel env bytes = Inr df0"
    and ft: "from_texts env (trace (log_event w2 (ReadExcel excel_path))) ?c ?m = Inl e1"
    by simp_all
  have run: "load_or_create_vectorstore env w2 excel_path = (Inl e1, ?w3)"
    using load_or_create_stale [OF sheet stale] rx create_vectorstore_from_texts_fails [OF ft]
    by simp
  have m: "main env w inp = log_event ?w3 (StError (''Error loading resources: '' @ e1))"
    by (rule main_load_fails [OF page click parsed challenge company run])
  have t: "trace (main env w inp) =
      trace w2 @ [ReadExcel excel_path, FromTexts ?c ?m, StError (''Error loading resources: '' @ e1)]"
    by (simp add: m trace_log_event)
  show "fst (load_or_create_vectorstore env w2 excel_path) = Inl e1" by (simp add: run)
  show "rendered (new_events w2 (main env w inp)) = []" by (simp add: new_events_def t)
  show "invocations (new_events w2 (main env w inp)) = []" by (simp add: new_events_def t)
  show "last (trace (main env w inp)) = StError (''Error loading resources: '' @ e1)"
    by (simp add: t)
next
  assume b: "load_or_create_vectorstore env w2 excel_path = (Inr vectorstore, w3) \<and>
      chat_init env = None \<and>
      similarity_search env (trace w3) vectorstore challenge_name 6 = Inr docs \<and>
      filter (title_matches challenge_name) docs \<noteq> [] \<and>
      extract_relevant_info env (log_event w3 (SimilaritySearch challenge_name 6))
        (filter (title_matches challenge_name) docs) challenge_name False =
          ((used_sources, combined_text), w4) \<and>
      strip combined_text \<noteq> [] \<and>
      chat_invoke env (trace w4) (email_prompt combined_text company_name) = Inl e2"
  let ?w5 = "log_event w4 (Invoke (email_prompt combined_text company_name))"
  from b have load: "load_or_create_vectorstore env w2 excel_path = (Inr vectorstore, w3)"
    and init: "chat_init env = None"
    and search: "similarity_search env (trace w3) vectorstore challenge_name 6 = Inr docs"
    and kept: "filter (title_matches challenge_name) docs \<noteq> []"
    and ex: "extract_relevant_info env (log_event w3 (SimilaritySearch challenge_name 6))
        (filter (title_matches challenge_name) docs) challenge_name False =
          ((used_sources, combined_text), w4)"
    and nonblank: "strip combined_text \<noteq> []"
    and raise: "chat_invoke env (trace w4) (email_prompt combined_text company_name) = Inl e2"
    by simp_all
  have gen: "generate_cold_email env w3 challenge_name company_name vectorstore = (Inl e2, ?w5)"
    using generate_cold_email_unfold [OF search ex, of company_name] kept nonblank raise by simp
  have m: "main env w inp = log_event ?w5 (StError (''Email generation failed: '' @ e2))"
    by (rule main_generation_fails [OF page click parsed challenge company load init gen])
  from load_or_create_trace [OF load] obtain evs1 where
    t3: "trace w3 = trace w2 @ evs1" and r1: "rendered evs1 = []"
    by blast
  from extract_relevant_info_trace [OF ex] obtain evs2 where
    t4: "trace w4 = trace (log_event w3 (SimilaritySearch challenge_name 6)) @ evs2" and
    r2: "rendered evs2 = []"
    by blast
  have t: "trace (main env w inp) =
      trace w2 @ (evs1 @ SimilaritySearch challenge_name 6 # evs2 @
        [Invoke (email_prompt combined_text company_name),
         StError (''Email generation failed: '' @ e2)])"
    by (simp add: m trace_log_event t3 t4)
  show "fst (generate_cold_email env w3 challenge_name company_name vectorstore) = Inl e2"
    by (simp add: gen)
  show "rendered (new_events w2 (main env w inp)) = []"
    by (simp add: new_events_def t rendered_append r1 r2)
  show "last (trace (main env w inp)) = StError (''Email generation failed: '' @ e2)"
    by (simp add: m trace_log_event)
qed

text \<open>
  Two runs on the well-formed line of the specification: one where the embedding service
  is down during the build, one where the index is loaded, a fact is extracted and the
  generation call fails.
\<close>

theorem fatal_failure_shows_error_witness:
  "last (trace (main (sample_env sample_chat (Inl ''embedding service down'') (Inr []))
                  sheet_world sample_input)) =
     StError ''Error loading resources: embedding service down'' \<and>
   rendered (new_events
       (snd (page_setup (sample_env sample_chat (Inl ''embedding service down'') (Inr []))
               sheet_world sample_input))
       (main (sample_env sample_chat (Inl ''embedding service down'') (Inr []))
          sheet_world sample_input)) = [] \<and>
   last (trace (main (sample_env failing_chat (Inr ()) (Inr [doc_a, doc_d]))
                  indexed_world sample_input)) =
     StError ''Email generation failed: rate limit'' \<and>
   rendered (new_events
       (snd (page_setup (sample_env failing_chat (Inr ()) (Inr [doc_a, doc_d]))
               indexed_world sample_input))
       (main (sample_env failing_chat (Inr ()) (Inr [doc_a, doc_d]))
          indexed_world sample_input)) = []"
proof -
  let ?p = "''MKB-challenge-data.xlsx''"
  let ?q = "''Smart Logistics''"
  have click: "button sample_input" by (simp add: sample_input_def)
  have parsed: "parse_input (user_input sample_input) = (Some ?q, Some ''Acme BV'')"
    by (simp add: sample_input_def parse_input_def str_defs)
  have challenge: "?q \<noteq> []" and company: "''Acme BV'' \<noteq> []" by simp_all
  \<comment> \<open>the build fails\<close>
  let ?F = "sample_env sample_chat (Inl ''embedding service down'') (Inr [])"
  let ?v2 = "snd (page_setup ?F sheet_world sample_input)"
  let ?df = "[[(''Challenge Name'', Some ''Smart Logistics''), (''URL'', None)]]"
  have pageF: "page_setup ?F sheet_world sample_input = (?p, ?v2)"
    by (simp add: page_setup_def sample_input_def Let_def)
  have filesF: "files ?v2 = files sheet_world"
    by (simp add: page_setup_def sample_input_def Let_def files_log_event)
  have sheetF: "files ?v2 ?p = Some ''rows''"
    unfolding filesF by (simp add: sheet_world_def)
  have staleF: "isStale (hexdigest (md5 ?F ''rows'')) (stored_hash ?v2)
      (files ?v2 vectorstore_path \<noteq> None)"
    unfolding isStale_def filesF by (simp add: sheet_world_def store_paths)
  have rx: "read_excel ?F ''rows'' = Inr ?df" by (simp add: sample_env_def)
  have ft: "from_texts ?F (trace (log_event ?v2 (ReadExcel ?p)))
      (fst (get_text_chunks ?F (map row_text_with_metadata (fillna [] ?df))))
      (snd (get_text_chunks ?F (map row_text_with_metadata (fillna [] ?df)))) =
        Inl ''embedding service down''"
    by (simp add: sample_env_def)
  from fatal_failure_shows_error [OF pageF click parsed challenge company,
      THEN conjunct1, rule_format, OF conjI [OF sheetF conjI [OF staleF conjI [OF rx ft]]]]
  have a: "rendered (new_events ?v2 (main ?F sheet_world sample_input)) = []"
    and b: "last (trace (main ?F sheet_world sample_input)) =
      StError (''Error loading resources: '' @ ''embedding service down'')"
    by simp_all
  \<comment> \<open>the generation call fails\<close>
  let ?G = "sample_env failing_chat (Inr ()) (Inr [doc_a, doc_d])"
  let ?u2 = "snd (page_setup ?G indexed_world sample_input)"
  let ?u3 = "log_event ?u2 (LoadLocal store_folder)"
  let ?u4 = "snd (extract_relevant_info ?G (log_event ?u3 (SimilaritySearch ?q 6))
                    (filter (title_matches ?q) [doc_a, doc_d]) ?q False)"
  have pageG: "page_setup ?G indexed_world sample_input = (?p, ?u2)"
    by (simp add: page_setup_def sample_input_def Let_def)
  have filesG: "files ?u2 = files indexed_world"
    by (simp add: page_setup_def sample_input_def Let_def files_log_event)
  have sheetG: "files ?u2 ?p = Some ''rows''"
    unfolding filesG by (simp add: indexed_world_def)
  have freshG: "\<not> isStale (hexdigest (md5 ?G ''rows'')) (stored_hash ?u2)
      (files ?u2 vectorstore_path \<noteq> None)"
    unfolding isStale_def stored_hash_def filesG
    by (simp add: indexed_world_def store_paths sample_fingerprint str_defs)
  have load: "load_or_create_vectorstore ?G ?u2 ?p = (Inr (), ?u3)"
    using load_or_create_fresh [OF sheetG freshG]
    unfolding load_vectorstore_def filesG
    by (simp add: indexed_world_def store_paths sample_env_def)
  have init: "chat_init ?G = None" by (simp add: sample_env_def)
  have search: "similarity_search ?G (trace ?u3) () ?q 6 = Inr [doc_a, doc_d]"
    by (simp add: sample_env_def)
  have keptG: "filter (title_matches ?q) [doc_a, doc_d] = [doc_a]"
    by (simp add: title_matches_def sample_defs str_defs dict_get_def)
  have kept: "filter (title_matches ?q) [doc_a, doc_d] \<noteq> []" by (simp only: keptG) simp
  have ex: "extract_relevant_info ?G (log_event ?u3 (SimilaritySearch ?q 6))
      (filter (title_matches ?q) [doc_a, doc_d]) ?q False =
        (([\<lparr>title = ''Smart Logistics'', url = ''u1'', extracted_facts = ''fact A''\<rparr>],
          ''fact A''), ?u4)"
    unfolding keptG
    by (simp add: extract_relevant_info_def invoke_def extraction_messages_def
          has_relevant_facts_def dict_get_def Let_def sample_defs str_defs)
  have nonblank: "strip ''fact A'' \<noteq> []" by (simp add: str_defs)
  have raise: "chat_invoke ?G (trace ?u4) (email_prompt ''fact A'' ''Acme BV'') = Inl ''rate limit''"
    by (simp add: sample_env_def failing_chat_def email_prompt_def)
  from fatal_failure_shows_error [OF pageG click parsed challenge company,
      THEN conjunct2, rule_format,
      OF conjI [OF load conjI [OF init conjI [OF search conjI [OF kept
           conjI [OF ex conjI [OF nonblank raise]]]]]]]
  have c: "rendered (new_events ?u2 (main ?G indexed_world sample_input)) = []"
    and d: "last (trace (main ?G indexed_world sample_input)) =
      StError (''Email generation failed: '' @ ''rate limit'')"
    by simp_all
  from a b c d show ?thesis by simp
qed

end
